theory Spec2Isabelle
  imports Complex_Main "HOL-Library.List_Lexorder" "HOL-Library.Char_ord"
    "HOL-Library.Product_Lexorder"
begin

section \<open>The Olist ETL pipeline: data model\<close>

text \<open>
  The pipeline of \<^verbatim>\<open>pipeline_olist.py\<close> (and its near-duplicate
  \<^verbatim>\<open>prefect_pipeline.py\<close>) works on pandas data frames. A frame is modelled as the
  list of its rows, in row order; a row is a record with one field per column the code
  names. A cell that pandas shows as NaN / None / NaT is \<open>None\<close>; identifier and text
  columns hold strings, the three money columns hold numbers. Floating-point numbers are
  idealised as reals (no rounding, no infinities in the input columns).

  Each \<^verbatim>\<open>create_..._summary\<close> function drops and re-creates its table and inserts one
  tuple per row of the aggregated frame; its model returns these tuples, in order.

  The column names are the ones the source uses; which file carries which column follows
  the data model of the specification (the CSV headers are not part of the repository).
  Columns of the CSV files that the code never names are left out.
\<close>

record customer_row =
  customer_id :: "string option"
  customer_city :: "string option"
  customer_state :: "string option"
  customer_zip_code_prefix :: "string option"

record item_row =
  order_id :: "string option"
  product_id :: "string option"
  price :: "real option"
  freight_value :: "real option"

record payment_row =
  order_id :: "string option"
  payment_type :: "string option"
  payment_value :: "real option"

text \<open>Orders as loaded from the CSV file: the two timestamp columns hold text.\<close>

record order_row =
  order_id :: "string option"
  customer_id :: "string option"
  order_status :: "string option"
  order_purchase_timestamp :: "string option"
  order_delivered_customer_date :: "string option"

text \<open>The intermediate frames of the three merges and the merged frame itself.\<close>

record oc_row =
  order_id :: "string option"
  customer_id :: "string option"
  order_status :: "string option"
  order_purchase_timestamp :: "string option"
  order_delivered_customer_date :: "string option"
  customer_city :: "string option"
  customer_state :: "string option"
  customer_zip_code_prefix :: "string option"

record oci_row =
  order_id :: "string option"
  customer_id :: "string option"
  order_status :: "string option"
  order_purchase_timestamp :: "string option"
  order_delivered_customer_date :: "string option"
  customer_city :: "string option"
  customer_state :: "string option"
  customer_zip_code_prefix :: "string option"
  product_id :: "string option"
  price :: "real option"
  freight_value :: "real option"

record merged_row =
  order_id :: "string option"
  customer_id :: "string option"
  order_status :: "string option"
  order_purchase_timestamp :: "string option"
  order_delivered_customer_date :: "string option"
  customer_city :: "string option"
  customer_state :: "string option"
  customer_zip_code_prefix :: "string option"
  product_id :: "string option"
  price :: "real option"
  freight_value :: "real option"
  payment_type :: "string option"
  payment_value :: "real option"

section \<open>Cleaning and merging: \<^verbatim>\<open>transform_data\<close>\<close>

text \<open>
  \<^verbatim>\<open>df.dropna(subset=[c1, ..., cn])\<close> returns a new frame with the rows in which none of
  the named columns is null, in the order of \<open>df\<close>. A column is given by its accessor.
\<close>

definition dropna :: "('r \<Rightarrow> 'v option) list \<Rightarrow> 'r list \<Rightarrow> 'r list" where
  "dropna subset_cols df = filter (\<lambda>r. list_all (\<lambda>c. c r \<noteq> None) subset_cols) df"

text \<open>
  \<^verbatim>\<open>left.merge(right, on=key, how="left")\<close>: every row of \<open>left\<close>, in order, is combined
  with each row of \<open>right\<close> that has the same key (in the order of \<open>right\<close>); a left row
  without a match is kept once, its right-hand columns filled with null. pandas matches a
  null key with a null key, as the equality on \<open>option\<close> does.
\<close>

definition merge_left ::
  "('l \<Rightarrow> 'k) \<Rightarrow> ('r \<Rightarrow> 'k) \<Rightarrow> ('l \<Rightarrow> 'r \<Rightarrow> 'm) \<Rightarrow> ('l \<Rightarrow> 'm) \<Rightarrow> 'l list \<Rightarrow> 'r list \<Rightarrow> 'm list"
where
  "merge_left lkey rkey combine fill_null left right =
     concat (map (\<lambda>l. case filter (\<lambda>r. rkey r = lkey l) right of
                         [] \<Rightarrow> [fill_null l]
                       | ms \<Rightarrow> map (combine l) ms) left)"

definition with_customer :: "order_row \<Rightarrow> customer_row \<Rightarrow> oc_row" where
  "with_customer o' c =
     \<lparr> oc_row.order_id = order_row.order_id o',
       customer_id = order_row.customer_id o',
       order_status = order_row.order_status o',
       order_purchase_timestamp = order_row.order_purchase_timestamp o',
       order_delivered_customer_date = order_row.order_delivered_customer_date o',
       customer_city = customer_row.customer_city c,
       customer_state = customer_row.customer_state c,
       customer_zip_code_prefix = customer_row.customer_zip_code_prefix c \<rparr>"

definition without_customer :: "order_row \<Rightarrow> oc_row" where
  "without_customer o' =
     \<lparr> oc_row.order_id = order_row.order_id o',
       customer_id = order_row.customer_id o',
       order_status = order_row.order_status o',
       order_purchase_timestamp = order_row.order_purchase_timestamp o',
       order_delivered_customer_date = order_row.order_delivered_customer_date o',
       customer_city = None,
       customer_state = None,
       customer_zip_code_prefix = None \<rparr>"

definition with_item :: "oc_row \<Rightarrow> item_row \<Rightarrow> oci_row" where
  "with_item m i =
     \<lparr> oci_row.order_id = oc_row.order_id m,
       customer_id = oc_row.customer_id m,
       order_status = oc_row.order_status m,
       order_purchase_timestamp = oc_row.order_purchase_timestamp m,
       order_delivered_customer_date = oc_row.order_delivered_customer_date m,
       customer_city = oc_row.customer_city m,
       customer_state = oc_row.customer_state m,
       customer_zip_code_prefix = oc_row.customer_zip_code_prefix m,
       product_id = item_row.product_id i,
       price = item_row.price i,
       freight_value = item_row.freight_value i \<rparr>"

definition without_item :: "oc_row \<Rightarrow> oci_row" where
  "without_item m =
     \<lparr> oci_row.order_id = oc_row.order_id m,
       customer_id = oc_row.customer_id m,
       order_status = oc_row.order_status m,
       order_purchase_timestamp = oc_row.order_purchase_timestamp m,
       order_delivered_customer_date = oc_row.order_delivered_customer_date m,
       customer_city = oc_row.customer_city m,
       customer_state = oc_row.customer_state m,
       customer_zip_code_prefix = oc_row.customer_zip_code_prefix m,
       product_id = None,
       price = None,
       freight_value = None \<rparr>"

definition with_payment :: "oci_row \<Rightarrow> payment_row \<Rightarrow> merged_row" where
  "with_payment m p =
     \<lparr> merged_row.order_id = oci_row.order_id m,
       customer_id = oci_row.customer_id m,
       order_status = oci_row.order_status m,
       order_purchase_timestamp = oci_row.order_purchase_timestamp m,
       order_delivered_customer_date = oci_row.order_delivered_customer_date m,
       customer_city = oci_row.customer_city m,
       customer_state = oci_row.customer_state m,
       customer_zip_code_prefix = oci_row.customer_zip_code_prefix m,
       product_id = oci_row.product_id m,
       price = oci_row.price m,
       freight_value = oci_row.freight_value m,
       payment_type = payment_row.payment_type p,
       payment_value = payment_row.payment_value p \<rparr>"

definition without_payment :: "oci_row \<Rightarrow> merged_row" where
  "without_payment m =
     \<lparr> merged_row.order_id = oci_row.order_id m,
       customer_id = oci_row.customer_id m,
       order_status = oci_row.order_status m,
       order_purchase_timestamp = oci_row.order_purchase_timestamp m,
       order_delivered_customer_date = oci_row.order_delivered_customer_date m,
       customer_city = oci_row.customer_city m,
       customer_state = oci_row.customer_state m,
       customer_zip_code_prefix = oci_row.customer_zip_code_prefix m,
       product_id = oci_row.product_id m,
       price = oci_row.price m,
       freight_value = oci_row.freight_value m,
       payment_type = None,
       payment_value = None \<rparr>"

text \<open>
  \<^verbatim>\<open>transform_data(customers, order_items, payments, orders)\<close> returns the merged frame
  together with the cleaned customers and the cleaned orders.
\<close>

definition transform_data ::
  "customer_row list \<Rightarrow> item_row list \<Rightarrow> payment_row list \<Rightarrow> order_row list
     \<Rightarrow> merged_row list \<times> customer_row list \<times> order_row list"
where
  "transform_data customers order_items payments orders =
     (let customers = dropna [customer_row.customer_id] customers;
          orders = dropna [order_row.order_id, order_row.customer_id] orders;
          order_items = dropna [item_row.order_id] order_items;
          payments = dropna [payment_row.order_id] payments;
          merged_df =
            merge_left oci_row.order_id payment_row.order_id with_payment without_payment
              (merge_left oc_row.order_id item_row.order_id with_item without_item
                 (merge_left order_row.customer_id customer_row.customer_id
                    with_customer without_customer orders customers)
                 order_items)
              payments
      in (merged_df, customers, orders))"

section \<open>Group-by and the aggregation functions\<close>

text \<open>
  The non-null cells of a column, in row order. Every pandas aggregation used by the
  pipeline (\<^verbatim>\<open>count\<close>, \<^verbatim>\<open>nunique\<close>, \<^verbatim>\<open>sum\<close>, \<^verbatim>\<open>mean\<close>, \<^verbatim>\<open>median\<close>, \<^verbatim>\<open>min\<close>,
  \<^verbatim>\<open>max\<close>, \<^verbatim>\<open>std\<close>) skips null cells.
\<close>

fun non_null :: "'a option list \<Rightarrow> 'a list" where
  "non_null [] = []"
| "non_null (None # col) = non_null col"
| "non_null (Some v # col) = v # non_null col"

text \<open>
  \<^verbatim>\<open>df.groupby(keys)\<close> with the defaults \<^verbatim>\<open>sort=True\<close>, \<^verbatim>\<open>dropna=True\<close>: the groups are
  the distinct key values in ascending order, and a row with a null in a key column belongs
  to no group. The key function returns \<open>None\<close> for such a row.
\<close>

definition groupby :: "('r \<Rightarrow> 'k option) \<Rightarrow> 'r list \<Rightarrow> ('k::linorder \<times> 'r list) list" where
  "groupby key df =
     map (\<lambda>k. (k, filter (\<lambda>r. key r = Some k) df)) (sort (remdups (non_null (map key df))))"

definition agg_count :: "'a option list \<Rightarrow> nat" where
  "agg_count col = length (non_null col)"

definition agg_nunique :: "'a option list \<Rightarrow> nat" where
  "agg_nunique col = length (remdups (non_null col))"

text \<open>The sum of an all-null (or empty) column is 0; its mean is NaN.\<close>

definition agg_sum :: "real option list \<Rightarrow> real option" where
  "agg_sum col = Some (sum_list (non_null col))"

definition mean :: "real list \<Rightarrow> real option" where
  "mean vs = (if vs = [] then None else Some (sum_list vs / real (length vs)))"

definition agg_mean :: "real option list \<Rightarrow> real option" where
  "agg_mean col = mean (non_null col)"

definition median :: "real list \<Rightarrow> real option" where
  "median vs =
     (let n = length vs; s = sort vs
      in if n = 0 then None
         else if odd n then Some (s ! (n div 2))
         else Some ((s ! (n div 2 - 1) + s ! (n div 2)) / 2))"

text \<open>\<^verbatim>\<open>std\<close> is the sample standard deviation (\<^verbatim>\<open>ddof=1\<close>): NaN below two values.\<close>

definition std :: "real list \<Rightarrow> real option" where
  "std vs =
     (case mean vs of
        None \<Rightarrow> None
      | Some m \<Rightarrow>
          if length vs < 2 then None
          else Some (sqrt ((\<Sum>v\<leftarrow>vs. (v - m)\<^sup>2) / real (length vs - 1))))"

definition agg_min :: "int option list \<Rightarrow> int option" where
  "agg_min col = (case non_null col of [] \<Rightarrow> None | v # vs \<Rightarrow> Some (fold min vs v))"

definition agg_max :: "int option list \<Rightarrow> int option" where
  "agg_max col = (case non_null col of [] \<Rightarrow> None | v # vs \<Rightarrow> Some (fold max vs v))"

section \<open>Sales summary\<close>

text \<open>
  A row of the aggregated frame, which is also the tuple handed to the \<^verbatim>\<open>INSERT\<close>
  statement. In a float column \<open>None\<close> is NaN; in a key column it is SQL NULL.
\<close>

record sales_summary_row =
  customer_id :: "string option"
  customer_state :: "string option"
  customer_city :: "string option"
  total_spent :: "real option"
  total_orders :: nat
  total_items :: nat
  avg_order_value :: "real option"
  avg_price :: "real option"
  avg_freight :: "real option"

definition sales_key :: "merged_row \<Rightarrow> (string \<times> string \<times> string) option" where
  "sales_key m =
     (case (merged_row.customer_id m, merged_row.customer_state m, merged_row.customer_city m) of
        (Some c, Some s, Some t) \<Rightarrow> Some (c, s, t)
      | _ \<Rightarrow> None)"

text \<open>
  \<^verbatim>\<open>merged_df.groupby(['customer_id', 'customer_state', 'customer_city']).agg(...).reset_index()\<close>,
  the same expression in both pipeline files.
\<close>

definition sales_agg :: "merged_row list \<Rightarrow> sales_summary_row list" where
  "sales_agg merged_df =
     map (\<lambda>((c, s, t), g).
            \<lparr> sales_summary_row.customer_id = Some c,
              customer_state = Some s,
              customer_city = Some t,
              total_spent = agg_sum (map merged_row.payment_value g),
              total_orders = agg_nunique (map merged_row.order_id g),
              total_items = agg_count (map merged_row.order_id g),
              avg_order_value = agg_mean (map merged_row.payment_value g),
              avg_price = agg_mean (map merged_row.price g),
              avg_freight = agg_mean (map merged_row.freight_value g) \<rparr>)
         (groupby sales_key merged_df)"

text \<open>\<^verbatim>\<open>sales_summary.fillna(0)\<close>: the key columns hold no null after the group-by.\<close>

definition fillna0 :: "real option \<Rightarrow> real option" where
  "fillna0 v = (case v of None \<Rightarrow> Some 0 | Some x \<Rightarrow> Some x)"

definition sales_fillna :: "sales_summary_row \<Rightarrow> sales_summary_row" where
  "sales_fillna row =
     row \<lparr> total_spent := fillna0 (total_spent row),
           avg_order_value := fillna0 (avg_order_value row),
           avg_price := fillna0 (avg_price row),
           avg_freight := fillna0 (avg_freight row) \<rparr>"

text \<open>\<^verbatim>\<open>float(x) if pd.notna(x) else 0.0\<close>\<close>

definition float_or_zero :: "real option \<Rightarrow> real option" where
  "float_or_zero v = (case v of None \<Rightarrow> Some 0 | Some x \<Rightarrow> Some x)"

text \<open>
  \<^verbatim>\<open>create_sales_summary\<close> of \<^verbatim>\<open>pipeline_olist.py\<close>. The model returns the tuples
  inserted into the freshly created table, in order.
\<close>

definition create_sales_summary :: "merged_row list \<Rightarrow> sales_summary_row list" where
  "create_sales_summary merged_df =
     (let sales_summary = sales_agg merged_df;
          sales_summary = map sales_fillna sales_summary
      in map (\<lambda>row.
            \<lparr> sales_summary_row.customer_id = sales_summary_row.customer_id row,
              customer_state = sales_summary_row.customer_state row,
              customer_city = sales_summary_row.customer_city row,
              total_spent = float_or_zero (total_spent row),
              total_orders = total_orders row,
              total_items = total_items row,
              avg_order_value = float_or_zero (avg_order_value row),
              avg_price = float_or_zero (avg_price row),
              avg_freight = float_or_zero (avg_freight row) \<rparr>) sales_summary)"

text \<open>
  \<^verbatim>\<open>create_sales_summary\<close> of \<^verbatim>\<open>prefect_pipeline.py\<close>: no \<^verbatim>\<open>fillna\<close>, and the
  tuple is built with plain \<^verbatim>\<open>float(...)\<close> and \<^verbatim>\<open>int(...)\<close>, which keep a NaN.
\<close>

definition prefect_create_sales_summary :: "merged_row list \<Rightarrow> sales_summary_row list" where
  "prefect_create_sales_summary merged_df =
     (let sales_summary = sales_agg merged_df
      in map (\<lambda>row.
            \<lparr> sales_summary_row.customer_id = sales_summary_row.customer_id row,
              customer_state = sales_summary_row.customer_state row,
              customer_city = sales_summary_row.customer_city row,
              total_spent = total_spent row,
              total_orders = total_orders row,
              total_items = total_items row,
              avg_order_value = avg_order_value row,
              avg_price = avg_price row,
              avg_freight = avg_freight row \<rparr>) sales_summary)"

text \<open>The merged rows of the group a summary row stands for.\<close>

definition sales_group :: "sales_summary_row \<Rightarrow> merged_row list \<Rightarrow> merged_row list" where
  "sales_group row merged_df =
     filter (\<lambda>m. merged_row.customer_id m = sales_summary_row.customer_id row
               \<and> merged_row.customer_state m = sales_summary_row.customer_state row
               \<and> merged_row.customer_city m = sales_summary_row.customer_city row) merged_df"

section \<open>Product summary\<close>

text \<open>
  The tuple handed to \<^verbatim>\<open>INSERT INTO product_summary\<close>: the group key, the two counts
  through \<^verbatim>\<open>int(...)\<close> and the four floats through \<^verbatim>\<open>float(...)\<close>, which keeps a NaN.
  Both pipeline files have the same function.
\<close>

record product_summary_row =
  product_id :: "string option"
  total_orders :: nat
  total_items_sold :: nat
  total_revenue :: "real option"
  avg_price :: "real option"
  total_freight :: "real option"
  avg_freight :: "real option"

definition create_product_summary :: "merged_row list \<Rightarrow> product_summary_row list" where
  "create_product_summary merged_df =
     map (\<lambda>(p, g).
            \<lparr> product_summary_row.product_id = Some p,
              total_orders = agg_nunique (map merged_row.order_id g),
              total_items_sold = agg_count (map merged_row.order_id g),
              total_revenue = agg_sum (map merged_row.price g),
              avg_price = agg_mean (map merged_row.price g),
              total_freight = agg_sum (map merged_row.freight_value g),
              avg_freight = agg_mean (map merged_row.freight_value g) \<rparr>)
         (groupby merged_row.product_id merged_df)"

section \<open>State summary\<close>

text \<open>The tuple handed to \<^verbatim>\<open>INSERT INTO state_summary\<close>; the same function in both files.\<close>

record state_summary_row =
  customer_state :: "string option"
  total_customers :: nat
  total_orders :: nat
  total_revenue :: "real option"
  avg_order_value :: "real option"
  total_items :: nat

definition create_state_summary :: "merged_row list \<Rightarrow> state_summary_row list" where
  "create_state_summary merged_df =
     map (\<lambda>(s, g).
            \<lparr> state_summary_row.customer_state = Some s,
              total_customers = agg_nunique (map merged_row.customer_id g),
              total_orders = agg_nunique (map merged_row.order_id g),
              total_revenue = agg_sum (map merged_row.payment_value g),
              avg_order_value = agg_mean (map merged_row.payment_value g),
              total_items = agg_count (map merged_row.order_id g) \<rparr>)
         (groupby merged_row.customer_state merged_df)"

section \<open>Delivery summary\<close>

text \<open>
  \<^verbatim>\<open>pd.to_datetime(column, errors='coerce')\<close> turns each text cell of a column into a
  timestamp, or into NaT when the text does not parse or the cell is null. How a text is
  read depends on the column it stands in (pandas infers one format for the column), so
  the parser of pandas is a parameter \<open>parse_datetime\<close> that is given the column and the
  text. A timestamp is its number of nanoseconds since the epoch.
\<close>

definition to_datetime ::
  "(string option list \<Rightarrow> string \<Rightarrow> int option) \<Rightarrow> string option list \<Rightarrow> int option list" where
  "to_datetime parse_datetime column =
     map (\<lambda>cell. case cell of None \<Rightarrow> None | Some s \<Rightarrow> parse_datetime column s) column"

text \<open>
  A row of the orders frame after \<^verbatim>\<open>create_delivery_summary\<close> has assigned to its
  columns: the two timestamp columns hold timestamps, and there is a column
  \<^verbatim>\<open>delivery_days\<close>. An orders frame is either as loaded, with text in the timestamp
  columns and no such column, or as that function leaves it.
\<close>

record order_dt_row =
  order_id :: "string option"
  customer_id :: "string option"
  order_status :: "string option"
  order_purchase_timestamp :: "int option"
  order_delivered_customer_date :: "int option"
  delivery_days :: "int option"

datatype orders_frame = Loaded "order_row list" | Parsed "order_dt_row list"

definition ns_per_day :: int where
  "ns_per_day = 86400000000000"

text \<open>
  \<^verbatim>\<open>(delivered - purchase).dt.days\<close>: the whole days of the difference, rounded towards
  minus infinity; null when either timestamp is NaT.
\<close>

definition timedelta_days :: "int option \<Rightarrow> int option \<Rightarrow> int option" where
  "timedelta_days delivered purchase =
     (case (delivered, purchase) of
        (Some d, Some p) \<Rightarrow> Some ((d - p) div ns_per_day)
      | _ \<Rightarrow> None)"

text \<open>
  The three assignments of \<^verbatim>\<open>create_delivery_summary\<close> to the orders frame: the
  delivered column, the purchase column, and the new column \<^verbatim>\<open>delivery_days\<close>, which is
  computed from the two columns just assigned. The other columns and the row order stay.
\<close>

definition parse_orders ::
  "(string option list \<Rightarrow> string \<Rightarrow> int option) \<Rightarrow> order_row list \<Rightarrow> order_dt_row list" where
  "parse_orders parse_datetime orders =
     (let delivered =
            to_datetime parse_datetime (map order_row.order_delivered_customer_date orders);
          purchase =
            to_datetime parse_datetime (map order_row.order_purchase_timestamp orders);
          days = map2 timedelta_days delivered purchase
      in map (\<lambda>(r, d, p, n).
                \<lparr> order_dt_row.order_id = order_row.order_id r,
                  customer_id = order_row.customer_id r,
                  order_status = order_row.order_status r,
                  order_purchase_timestamp = p,
                  order_delivered_customer_date = d,
                  delivery_days = n \<rparr>)
           (zip orders (zip delivered (zip purchase days))))"

text \<open>On a frame whose timestamp columns are timestamps already, \<^verbatim>\<open>to_datetime\<close> changes nothing.\<close>

definition reparse_order :: "order_dt_row \<Rightarrow> order_dt_row" where
  "reparse_order r =
     r \<lparr> delivery_days :=
           timedelta_days (order_dt_row.order_delivered_customer_date r)
             (order_dt_row.order_purchase_timestamp r) \<rparr>"

record delivery_row =
  order_id :: "string option"
  customer_id :: "string option"
  order_status :: "string option"
  order_purchase_timestamp :: "int option"
  order_delivered_customer_date :: "int option"
  delivery_days :: "int option"
  customer_city :: "string option"
  customer_state :: "string option"
  customer_zip_code_prefix :: "string option"

definition delivery_with_customer :: "order_dt_row \<Rightarrow> customer_row \<Rightarrow> delivery_row" where
  "delivery_with_customer r c =
     \<lparr> delivery_row.order_id = order_dt_row.order_id r,
       customer_id = order_dt_row.customer_id r,
       order_status = order_dt_row.order_status r,
       order_purchase_timestamp = order_dt_row.order_purchase_timestamp r,
       order_delivered_customer_date = order_dt_row.order_delivered_customer_date r,
       delivery_days = order_dt_row.delivery_days r,
       customer_city = customer_row.customer_city c,
       customer_state = customer_row.customer_state c,
       customer_zip_code_prefix = customer_row.customer_zip_code_prefix c \<rparr>"

definition delivery_without_customer :: "order_dt_row \<Rightarrow> delivery_row" where
  "delivery_without_customer r =
     \<lparr> delivery_row.order_id = order_dt_row.order_id r,
       customer_id = order_dt_row.customer_id r,
       order_status = order_dt_row.order_status r,
       order_purchase_timestamp = order_dt_row.order_purchase_timestamp r,
       order_delivered_customer_date = order_dt_row.order_delivered_customer_date r,
       delivery_days = order_dt_row.delivery_days r,
       customer_city = None,
       customer_state = None,
       customer_zip_code_prefix = None \<rparr>"

text \<open>
  A float that is the result of a division: pandas divides the two integer columns as
  floats, where \<open>x / 0\<close> is infinite for \<open>x > 0\<close> and \<open>0 / 0\<close> is NaN.
\<close>

datatype float64 = Finite real | PosInf | NaN

definition delivery_rate_of :: "nat \<Rightarrow> nat \<Rightarrow> float64" where
  "delivery_rate_of delivered_n total_n =
     (if total_n = 0 then (if delivered_n = 0 then NaN else PosInf)
      else Finite (real delivered_n / real total_n * 100))"

record delivery_summary_row =
  customer_state :: "string option"
  total_orders :: nat
  delivered_orders :: nat
  delivery_rate :: float64
  avg_delivery_days :: "real option"
  median_delivery_days :: "real option"
  fastest_delivery :: "int option"
  slowest_delivery :: "int option"
  std_delivery_days :: "real option"

text \<open>The numbers of a column of whole days, as the floats the statistics work on.\<close>

definition day_values :: "int option list \<Rightarrow> real list" where
  "day_values col = map real_of_int (non_null col)"

definition delivery_agg :: "string \<Rightarrow> delivery_row list \<Rightarrow> delivery_summary_row" where
  "delivery_agg s g =
     (let total_n = agg_count (map delivery_row.order_id g);
          delivered_n = agg_count (map delivery_row.delivery_days g)
      in \<lparr> delivery_summary_row.customer_state = Some s,
           total_orders = total_n,
           delivered_orders = delivered_n,
           delivery_rate = delivery_rate_of delivered_n total_n,
           avg_delivery_days = mean (day_values (map delivery_row.delivery_days g)),
           median_delivery_days = median (day_values (map delivery_row.delivery_days g)),
           fastest_delivery = agg_min (map delivery_row.delivery_days g),
           slowest_delivery = agg_max (map delivery_row.delivery_days g),
           std_delivery_days = std (day_values (map delivery_row.delivery_days g)) \<rparr>)"

text \<open>
  \<^verbatim>\<open>create_delivery_summary\<close> on the values of the two frames: it assigns to three
  columns of the orders frame it is given, so the result is that frame as it is after the
  call, the customers frame (which the function only reads), and the tuples inserted into
  the table. The next section has the call on references.
\<close>

definition create_delivery_summary ::
  "(string option list \<Rightarrow> string \<Rightarrow> int option) \<Rightarrow> orders_frame \<Rightarrow> customer_row list
     \<Rightarrow> orders_frame \<times> customer_row list \<times> delivery_summary_row list"
where
  "create_delivery_summary parse_datetime orders customers =
     (let rows = (case orders of
                    Loaded rs \<Rightarrow> parse_orders parse_datetime rs
                  | Parsed rs \<Rightarrow> map reparse_order rs);
          delivery_data =
            merge_left order_dt_row.customer_id customer_row.customer_id
              delivery_with_customer delivery_without_customer rows customers;
          delivery_summary =
            map (\<lambda>(s, g). delivery_agg s g) (groupby delivery_row.customer_state delivery_data)
      in (Parsed rows, customers, delivery_summary))"

text \<open>The joined delivery frame of a loaded orders frame.\<close>

definition delivery_data_of ::
  "(string option list \<Rightarrow> string \<Rightarrow> int option) \<Rightarrow> order_row list \<Rightarrow> customer_row list
     \<Rightarrow> delivery_row list" where
  "delivery_data_of parse_datetime orders customers =
     merge_left order_dt_row.customer_id customer_row.customer_id
       delivery_with_customer delivery_without_customer
       (parse_orders parse_datetime orders) customers"

section \<open>The aggregators called on the frames of \<^verbatim>\<open>run_pipeline\<close>\<close>

text \<open>
  \<^verbatim>\<open>run_pipeline\<close> holds the merged frame, the cleaned customers and the cleaned orders
  as objects and hands references to them to the aggregators. The heap maps a reference
  to the frame it holds; the four summary tables are the part of the database the
  aggregators write (a table is absent until it is created). A call raises when a
  reference does not hold a frame with the columns the function reads (\<open>None\<close>).

  Only \<^verbatim>\<open>create_delivery_summary\<close> contains assignments to a frame it is given
  (\<^verbatim>\<open>orders[...] = ...\<close>, three times): they are writes to the object behind the
  reference \<open>orders\<close>. The other functions build new frames from the one they read.
\<close>

type_synonym ref = nat

datatype object =
    Customers "customer_row list"
  | Orders orders_frame
  | Merged "merged_row list"

record world =
  heap :: "ref \<Rightarrow> object option"
  sales_summary_table :: "sales_summary_row list option"
  delivery_summary_table :: "delivery_summary_row list option"
  product_summary_table :: "product_summary_row list option"
  state_summary_table :: "state_summary_row list option"

definition call_create_sales_summary :: "ref \<Rightarrow> world \<Rightarrow> world option" where
  "call_create_sales_summary merged_df w =
     (case heap w merged_df of
        Some (Merged rows) \<Rightarrow> Some (w \<lparr> sales_summary_table := Some (create_sales_summary rows) \<rparr>)
      | _ \<Rightarrow> None)"

definition call_prefect_create_sales_summary :: "ref \<Rightarrow> world \<Rightarrow> world option" where
  "call_prefect_create_sales_summary merged_df w =
     (case heap w merged_df of
        Some (Merged rows) \<Rightarrow>
          Some (w \<lparr> sales_summary_table := Some (prefect_create_sales_summary rows) \<rparr>)
      | _ \<Rightarrow> None)"

definition call_create_product_summary :: "ref \<Rightarrow> world \<Rightarrow> world option" where
  "call_create_product_summary merged_df w =
     (case heap w merged_df of
        Some (Merged rows) \<Rightarrow>
          Some (w \<lparr> product_summary_table := Some (create_product_summary rows) \<rparr>)
      | _ \<Rightarrow> None)"

definition call_create_state_summary :: "ref \<Rightarrow> world \<Rightarrow> world option" where
  "call_create_state_summary merged_df w =
     (case heap w merged_df of
        Some (Merged rows) \<Rightarrow> Some (w \<lparr> state_summary_table := Some (create_state_summary rows) \<rparr>)
      | _ \<Rightarrow> None)"

definition call_create_delivery_summary ::
  "(string option list \<Rightarrow> string \<Rightarrow> int option) \<Rightarrow> ref \<Rightarrow> ref \<Rightarrow> world \<Rightarrow> world option" where
  "call_create_delivery_summary parse_datetime orders customers w =
     (case (heap w orders, heap w customers) of
        (Some (Orders frame), Some (Customers cs)) \<Rightarrow>
          (case create_delivery_summary parse_datetime frame cs of
             (frame', cs', delivery_summary) \<Rightarrow>
               Some (w \<lparr> heap := (heap w)(orders \<mapsto> Orders frame'),
                         delivery_summary_table := Some delivery_summary \<rparr>))
      | _ \<Rightarrow> None)"

section \<open>Master table: \<^verbatim>\<open>load_master_table\<close>\<close>

text \<open>
  \<^verbatim>\<open>iterrows\<close> hands each row over as a Series, a mapping from column label to cell.
  A present cell is null (NaN or \<^verbatim>\<open>None\<close>, both \<open>None\<close> here) or a Python value.
\<close>

datatype pyval = PyStr string | PyFloat real










text \<open>The thirteen parameters of the \<^verbatim>\<open>INSERT INTO olist_master\<close> statement.\<close>

record master_params =
  order_id :: "pyval option"
  customer_id :: "pyval option"
  customer_city :: "pyval option"
  customer_state :: "pyval option"
  customer_zip_code_prefix :: "pyval option"
  order_status :: "pyval option"
  order_purchase_timestamp :: "string option"
  order_delivered_customer_date :: "string option"
  price :: real
  freight_value :: real
  payment_type :: "pyval option"
  payment_value :: real
  product_id :: "pyval option"











section \<open>Notions used in the statements, and sample data\<close>

definition rows_of_order :: "string option \<Rightarrow> merged_row list \<Rightarrow> merged_row list" where
  "rows_of_order oid merged_df = filter (\<lambda>m. merged_row.order_id m = oid) merged_df"

definition items_of_order :: "string option \<Rightarrow> item_row list \<Rightarrow> item_row list" where
  "items_of_order oid order_items = filter (\<lambda>i. item_row.order_id i = oid) order_items"

definition payments_of_order :: "string option \<Rightarrow> payment_row list \<Rightarrow> payment_row list" where
  "payments_of_order oid payments = filter (\<lambda>p. payment_row.order_id p = oid) payments"

definition orders_with_id :: "string option \<Rightarrow> order_row list \<Rightarrow> order_row list" where
  "orders_with_id oid orders = filter (\<lambda>r. order_row.order_id r = oid) orders"

definition customers_of_order :: "order_row \<Rightarrow> customer_row list \<Rightarrow> customer_row list" where
  "customers_of_order r customers =
     filter (\<lambda>c. customer_row.customer_id c = order_row.customer_id r) customers"

definition mk_customer :: "string option \<Rightarrow> string option \<Rightarrow> string option \<Rightarrow> customer_row" where
  "mk_customer cid city st =
     \<lparr> customer_row.customer_id = cid, customer_city = city, customer_state = st,
       customer_zip_code_prefix = Some ''01000'' \<rparr>"

definition mk_order :: "string option \<Rightarrow> string option \<Rightarrow> string option \<Rightarrow> string option \<Rightarrow> order_row" where
  "mk_order oid cid purchase delivered =
     \<lparr> order_row.order_id = oid, customer_id = cid, order_status = Some ''delivered'',
       order_purchase_timestamp = purchase, order_delivered_customer_date = delivered \<rparr>"

definition mk_item :: "string option \<Rightarrow> string option \<Rightarrow> real \<Rightarrow> item_row" where
  "mk_item oid pid p =
     \<lparr> item_row.order_id = oid, product_id = pid, price = Some p, freight_value = Some 1 \<rparr>"

definition mk_payment :: "string option \<Rightarrow> real \<Rightarrow> payment_row" where
  "mk_payment oid v =
     \<lparr> payment_row.order_id = oid, payment_type = Some ''credit_card'', payment_value = Some v \<rparr>"

text \<open>One customer in SP with one order of two items and three payments.\<close>

definition sp_customers :: "customer_row list" where
  "sp_customers = [mk_customer (Some ''c1'') (Some ''sao paulo'') (Some ''SP'')]"

definition sp_orders :: "order_row list" where
  "sp_orders = [mk_order (Some ''o1'') (Some ''c1'') (Some ''t0'') (Some ''t1'')]"

definition sp_items :: "item_row list" where
  "sp_items = [mk_item (Some ''o1'') (Some ''p1'') 10, mk_item (Some ''o1'') (Some ''p2'') 20]"

definition sp_payments :: "payment_row list" where
  "sp_payments = [mk_payment (Some ''o1'') 11, mk_payment (Some ''o1'') 11, mk_payment (Some ''o1'') 11]"

text \<open>The customers file lists the customer of the order twice.\<close>

definition twice_customers :: "customer_row list" where
  "twice_customers =
     [mk_customer (Some ''c1'') (Some ''sao paulo'') (Some ''SP''),
      mk_customer (Some ''c1'') (Some ''rio'') (Some ''RJ'')]"

text \<open>Raw input with rows that lack an identifier.\<close>

definition raw_customers :: "customer_row list" where
  "raw_customers =
     [mk_customer None (Some ''rio'') (Some ''RJ''),
      mk_customer (Some ''c1'') (Some ''sao paulo'') (Some ''SP'')]"

definition raw_orders :: "order_row list" where
  "raw_orders =
     [mk_order (Some ''o1'') None None None,
      mk_order None (Some ''c1'') None None,
      mk_order (Some ''o2'') (Some ''c1'') None None]"

text \<open>A customer without a state, and an order whose customer is not in the customers file.\<close>

definition null_state_customers :: "customer_row list" where
  "null_state_customers =
     [mk_customer (Some ''c1'') (Some ''sao paulo'') (Some ''SP''),
      mk_customer (Some ''c2'') (Some ''rio'') None]"

definition three_orders :: "order_row list" where
  "three_orders =
     [mk_order (Some ''o1'') (Some ''c1'') None None,
      mk_order (Some ''o2'') (Some ''c2'') None None,
      mk_order (Some ''o3'') (Some ''c9'') None None]"

text \<open>The coercion the two sales summaries differ by: NaN becomes 0.\<close>

definition nan_to_zero :: "sales_summary_row \<Rightarrow> sales_summary_row" where
  "nan_to_zero row =
     row \<lparr> sales_summary_row.total_spent := float_or_zero (sales_summary_row.total_spent row),
           sales_summary_row.avg_order_value :=
             float_or_zero (sales_summary_row.avg_order_value row),
           sales_summary_row.avg_price := float_or_zero (sales_summary_row.avg_price row),
           sales_summary_row.avg_freight := float_or_zero (sales_summary_row.avg_freight row) \<rparr>"

text \<open>The rows of the joined delivery frame that a summary row stands for.\<close>

definition delivery_group :: "delivery_summary_row \<Rightarrow> delivery_row list \<Rightarrow> delivery_row list" where
  "delivery_group row delivery_data =
     filter (\<lambda>r. delivery_row.customer_state r = delivery_summary_row.customer_state row)
       delivery_data"

text \<open>
  A parser for the sample data: five texts parse (whatever the column), every other text
  does not.
\<close>

definition sample_parse :: "string option list \<Rightarrow> string \<Rightarrow> int option" where
  "sample_parse column s =
     (if s = ''t0'' then Some 0
      else if s = ''t1'' then Some (3 * ns_per_day + 5)
      else if s = ''d0'' then Some 5
      else if s = ''d11'' then Some (11 * ns_per_day)
      else if s = ''d13'' then Some (13 * ns_per_day + 5)
      else None)"

text \<open>Two orders of the customer in SP: one delivered, one whose delivery date does not parse.\<close>

definition sp_two_orders :: "order_row list" where
  "sp_two_orders =
     [mk_order (Some ''o1'') (Some ''c1'') (Some ''t0'') (Some ''t1''),
      mk_order (Some ''o2'') (Some ''c1'') (Some ''t0'') (Some ''soon'')]"

text \<open>
  Four orders of the customer in SP, delivered after 13, 0 and 11 days, and one whose
  delivery date does not parse.
\<close>

definition sp_four_orders :: "order_row list" where
  "sp_four_orders =
     [mk_order (Some ''o1'') (Some ''c1'') (Some ''t0'') (Some ''d13''),
      mk_order (Some ''o2'') (Some ''c1'') (Some ''t0'') (Some ''d0''),
      mk_order (Some ''o3'') (Some ''c1'') (Some ''t0'') (Some ''soon''),
      mk_order (Some ''o4'') (Some ''c1'') (Some ''t0'') (Some ''d11'')]"

text \<open>The frames of a run: the merged frame, the customers and the orders, at three references.\<close>

definition sample_world :: world where
  "sample_world =
     \<lparr> heap = [1 \<mapsto> Merged [], 2 \<mapsto> Customers sp_customers, 3 \<mapsto> Orders (Loaded sp_two_orders)],
       sales_summary_table = None, delivery_summary_table = None,
       product_summary_table = None, state_summary_table = None \<rparr>"







text \<open>The key columns of a row of the sales summary.\<close>

definition sales_row_key ::
  "sales_summary_row \<Rightarrow> string option \<times> string option \<times> string option" where
  "sales_row_key row =
     (sales_summary_row.customer_id row, sales_summary_row.customer_state row,
      sales_summary_row.customer_city row)"

section \<open>Properties of the cleaner\<close>

lemma dropna_required:
  "r \<in> set (dropna cols df) \<Longrightarrow> c \<in> set cols \<Longrightarrow> c r \<noteq> None"
  by (simp add: dropna_def list_all_iff)

lemma length_dropna: "length (dropna cols df) \<le> length df"
  by (simp add: dropna_def)

lemma dropna_Nil: "dropna cols [] = []"
  by (simp add: dropna_def)

text \<open>
  Claim C8. The cleaner keeps only rows that are non-null in every required column, its
  output is no longer than its input, and an empty input gives an empty output (the model
  of \<^verbatim>\<open>dropna\<close> is total: there is no failure). \<^verbatim>\<open>transform_data\<close> cleans customers on
  \<^verbatim>\<open>customer_id\<close>, orders on \<^verbatim>\<open>order_id\<close> and \<^verbatim>\<open>customer_id\<close>, and order items and
  payments on \<^verbatim>\<open>order_id\<close>; it returns the cleaned customers and orders.
\<close>

theorem cleaning_is_exclusionary:
  "(\<forall>r \<in> set (dropna cols df). \<forall>c \<in> set cols. c r \<noteq> None)
   \<and> length (dropna cols df) \<le> length df
   \<and> dropna cols [] = []
   \<and> snd (transform_data customers order_items payments orders) =
       (dropna [customer_row.customer_id] customers,
        dropna [order_row.order_id, order_row.customer_id] orders)"
  by (auto simp: dropna_required length_dropna dropna_Nil transform_data_def Let_def)

theorem cleaning_is_exclusionary_witness:
  "list_all (\<lambda>r. order_row.order_id r \<noteq> None \<and> order_row.customer_id r \<noteq> None)
     (dropna [order_row.order_id, order_row.customer_id] raw_orders)
   \<and> length (dropna [order_row.order_id, order_row.customer_id] raw_orders) \<le> length raw_orders
   \<and> dropna [order_row.order_id, order_row.customer_id] raw_orders
       = [mk_order (Some ''o2'') (Some ''c1'') None None]
   \<and> snd (transform_data raw_customers [] [] raw_orders) =
       ([mk_customer (Some ''c1'') (Some ''sao paulo'') (Some ''SP'')],
        [mk_order (Some ''o2'') (Some ''c1'') None None])"
  using cleaning_is_exclusionary
    [of "[order_row.order_id, order_row.customer_id]" raw_orders raw_customers "[]" "[]" raw_orders]
  by (simp add: dropna_def raw_orders_def raw_customers_def mk_order_def mk_customer_def)

section \<open>Properties of the merger\<close>

lemma length_filter_merge_left:
  assumes "\<And>l r. mkey (combine l r) = okey l" and "\<And>l. mkey (fill_null l) = okey l"
  shows "length (filter (\<lambda>m. mkey m = k) (merge_left lkey rkey combine fill_null ls rs)) =
         (\<Sum>l\<leftarrow>filter (\<lambda>l. okey l = k) ls. max 1 (length (filter (\<lambda>r. rkey r = lkey l) rs)))"
proof (induction ls)
  case Nil
  show ?case by (simp add: merge_left_def)
next
  case (Cons l ls)
  have step: "length (filter (\<lambda>m. mkey m = k)
                (case filter (\<lambda>r. rkey r = lkey l) rs of
                   [] \<Rightarrow> [fill_null l] | ms \<Rightarrow> map (combine l) ms)) =
              (if okey l = k then max 1 (length (filter (\<lambda>r. rkey r = lkey l) rs)) else 0)"
    by (cases "filter (\<lambda>r. rkey r = lkey l) rs") (simp_all add: assms o_def)
  from Cons step show ?case
    by (simp add: merge_left_def)
qed

lemma sum_list_filter_const:
  assumes "\<And>x. x \<in> set xs \<Longrightarrow> P x \<Longrightarrow> f x = (c::nat)"
  shows "(\<Sum>x\<leftarrow>filter P xs. f x) = length (filter P xs) * c"
  using assms by (induction xs) auto

lemma merge_left_same_key_count:
  assumes "\<And>l r. mkey (combine l r) = lkey l" and "\<And>l. mkey (fill_null l) = lkey l"
  shows "length (filter (\<lambda>m. mkey m = k) (merge_left lkey rkey combine fill_null ls rs)) =
         length (filter (\<lambda>l. lkey l = k) ls) * max 1 (length (filter (\<lambda>r. rkey r = k) rs))"
  unfolding length_filter_merge_left [of mkey combine lkey, OF assms]
  by (rule sum_list_filter_const) simp

lemma oc_order_id [simp]:
  "oc_row.order_id (with_customer r c) = order_row.order_id r"
  "oc_row.order_id (without_customer r) = order_row.order_id r"
  by (simp_all add: with_customer_def without_customer_def)

lemma oci_order_id [simp]:
  "oci_row.order_id (with_item m i) = oc_row.order_id m"
  "oci_row.order_id (without_item m) = oc_row.order_id m"
  by (simp_all add: with_item_def without_item_def)

lemma merged_order_id [simp]:
  "merged_row.order_id (with_payment m p) = oci_row.order_id m"
  "merged_row.order_id (without_payment m) = oci_row.order_id m"
  by (simp_all add: with_payment_def without_payment_def)

text \<open>
  The number of merged rows of an order id, for every input: each cleaned order row with
  that id contributes one row per matching customer row (one if there is none), and that
  number is multiplied by the items and by the payments of the order (a factor 0 counts 1).
\<close>

lemma transform_data_fanout:
  assumes "transform_data customers order_items payments orders = (merged_df, customers', orders')"
  shows "length (rows_of_order oid merged_df) =
           (\<Sum>r\<leftarrow>orders_with_id oid orders'. max 1 (length (customers_of_order r customers')))
           * max 1 (length (items_of_order oid (dropna [item_row.order_id] order_items)))
           * max 1 (length (payments_of_order oid (dropna [payment_row.order_id] payments)))"
proof -
  let ?m1 = "merge_left order_row.customer_id customer_row.customer_id
                    with_customer without_customer orders' customers'"
  let ?m2 = "merge_left oc_row.order_id item_row.order_id with_item without_item ?m1
                 (dropna [item_row.order_id] order_items)"
  from assms have m: "merged_df = merge_left oci_row.order_id payment_row.order_id
      with_payment without_payment ?m2 (dropna [payment_row.order_id] payments)"
    by (auto simp: transform_data_def Let_def)
  have 1: "length (filter (\<lambda>m. oc_row.order_id m = oid) ?m1) =
      (\<Sum>r\<leftarrow>orders_with_id oid orders'. max 1 (length (customers_of_order r customers')))"
    unfolding orders_with_id_def customers_of_order_def
    by (rule length_filter_merge_left) simp_all
  have 2: "length (filter (\<lambda>m. oci_row.order_id m = oid) ?m2) =
      length (filter (\<lambda>m. oc_row.order_id m = oid) ?m1)
       * max 1 (length (items_of_order oid (dropna [item_row.order_id] order_items)))"
    unfolding items_of_order_def
    by (rule merge_left_same_key_count) simp_all
  have 3: "length (rows_of_order oid merged_df) =
      length (filter (\<lambda>m. oci_row.order_id m = oid) ?m2)
       * max 1 (length (payments_of_order oid (dropna [payment_row.order_id] payments)))"
    unfolding payments_of_order_def rows_of_order_def m
    by (rule merge_left_same_key_count) simp_all
  show ?thesis by (simp only: 1 2 3)
qed

lemma sum_list_max1_pos:
  "xs \<noteq> [] \<Longrightarrow> 0 < (\<Sum>x\<leftarrow>xs. max (1::nat) (f x))"
  by (cases xs) (simp_all add: less_max_iff_disj)

lemmas sample_defs =
  mk_customer_def mk_order_def mk_item_def mk_payment_def
  sp_customers_def sp_orders_def sp_items_def sp_payments_def twice_customers_def

lemmas merge_defs =
  transform_data_def dropna_def merge_left_def
  with_customer_def with_item_def with_payment_def
  without_customer_def without_item_def without_payment_def

text \<open>
  Claim C2, as stated, fails: the cleaner does not make \<^verbatim>\<open>customer_id\<close> unique among the
  customers, and an order whose customer is listed twice is merged into two rows although
  it has no item and no payment.
\<close>

theorem fan_out_counterexample:
  "length (rows_of_order (Some ''o1'') (fst (transform_data twice_customers [] [] sp_orders))) = 2
   \<and> max (length (items_of_order (Some ''o1'') (dropna [item_row.order_id] []))) 1
     * max (length (payments_of_order (Some ''o1'') (dropna [payment_row.order_id] []))) 1 = 1"
  by (simp add: merge_defs sample_defs rows_of_order_def items_of_order_def payments_of_order_def)

text \<open>
  Claim C2, amended. If exactly one cleaned order row has the order id, and at most one
  cleaned customer row has the customer id of that order, then the merged frame has exactly
  \<open>max i 1 * max p 1\<close> rows with the order id, for \<open>i\<close> matching item rows and \<open>p\<close>
  matching payment rows. For every input, every cleaned order has at least one merged row.
\<close>

theorem transform_data_fan_out:
  assumes "transform_data customers order_items payments orders = (merged_df, customers', orders')"
  shows "((\<exists>r. orders_with_id oid orders' = [r] \<and> length (customers_of_order r customers') \<le> 1) \<longrightarrow>
          length (rows_of_order oid merged_df) =
            max (length (items_of_order oid (dropna [item_row.order_id] order_items))) 1
            * max (length (payments_of_order oid (dropna [payment_row.order_id] payments))) 1)
       \<and> (\<forall>r \<in> set orders'. rows_of_order (order_row.order_id r) merged_df \<noteq> [])"
proof (intro conjI impI ballI)
  assume "\<exists>r. orders_with_id oid orders' = [r] \<and> length (customers_of_order r customers') \<le> 1"
  then obtain r where r: "orders_with_id oid orders' = [r]"
      "length (customers_of_order r customers') \<le> 1"
    by blast
  then have "(\<Sum>r\<leftarrow>orders_with_id oid orders'. max 1 (length (customers_of_order r customers'))) = 1"
    by simp
  then show "length (rows_of_order oid merged_df) =
            max (length (items_of_order oid (dropna [item_row.order_id] order_items))) 1
            * max (length (payments_of_order oid (dropna [payment_row.order_id] payments))) 1"
    by (simp add: transform_data_fanout [OF assms] max.commute)
next
  fix r assume "r \<in> set orders'"
  then have "orders_with_id (order_row.order_id r) orders' \<noteq> []"
    by (auto simp: orders_with_id_def filter_empty_conv)
  then have "0 < (\<Sum>x\<leftarrow>orders_with_id (order_row.order_id r) orders'.
                     max 1 (length (customers_of_order x customers')))"
    by (rule sum_list_max1_pos)
  then have "0 < length (rows_of_order (order_row.order_id r) merged_df)"
    by (simp add: transform_data_fanout [OF assms] less_max_iff_disj)
  then show "rows_of_order (order_row.order_id r) merged_df \<noteq> []" by simp
qed
theorem transform_data_fan_out_witness:
  "transform_data sp_customers sp_items sp_payments sp_orders =
     (fst (transform_data sp_customers sp_items sp_payments sp_orders), sp_customers, sp_orders)
   \<and> orders_with_id (Some ''o1'') sp_orders = sp_orders
   \<and> length (customers_of_order (hd sp_orders) sp_customers) = 1
   \<and> length (rows_of_order (Some ''o1'')
        (fst (transform_data sp_customers sp_items sp_payments sp_orders))) = 6
   \<and> rows_of_order (order_row.order_id (hd sp_orders))
          (fst (transform_data sp_customers sp_items sp_payments sp_orders)) \<noteq> []"
proof -
  have t: "transform_data sp_customers sp_items sp_payments sp_orders =
     (fst (transform_data sp_customers sp_items sp_payments sp_orders), sp_customers, sp_orders)"
    by (simp add: transform_data_def Let_def dropna_def sample_defs)
  have o: "orders_with_id (Some ''o1'') sp_orders = sp_orders"
    by (simp add: orders_with_id_def sample_defs)
  have c: "length (customers_of_order (hd sp_orders) sp_customers) = 1"
    by (simp add: customers_of_order_def sample_defs)
  have h: "\<exists>r. orders_with_id (Some ''o1'') sp_orders = [r]
              \<and> length (customers_of_order r sp_customers) \<le> 1"
    by (simp add: orders_with_id_def customers_of_order_def sample_defs)
  have i: "length (items_of_order (Some ''o1'') (dropna [item_row.order_id] sp_items)) = 2"
    by (simp add: items_of_order_def dropna_def sample_defs)
  have p: "length (payments_of_order (Some ''o1'') (dropna [payment_row.order_id] sp_payments)) = 3"
    by (simp add: payments_of_order_def dropna_def sample_defs)
  have m: "hd sp_orders \<in> set sp_orders"
    by (simp add: sp_orders_def)
  from transform_data_fan_out [OF t, of "Some ''o1''"] h i p t o c m show ?thesis
    by simp
qed

section \<open>Properties of the aggregations\<close>

lemma set_non_null: "set (non_null col) = {v. Some v \<in> set col}"
  by (induction col rule: non_null.induct) auto

lemma length_non_null: "length (non_null (map f xs)) = length (filter (\<lambda>x. f x \<noteq> None) xs)"
  by (induction xs) (auto split: option.splits)

lemma non_null_all_Some:
  "(\<And>x. x \<in> set xs \<Longrightarrow> f x \<noteq> None) \<Longrightarrow> map Some (non_null (map f xs)) = map f xs"
proof (induction xs)
  case Nil
  show ?case by simp
next
  case (Cons a xs)
  from Cons.prems obtain y where "f a = Some y" by force
  with Cons show ?case by simp
qed

lemma agg_count_rows:
  "(\<And>x. x \<in> set xs \<Longrightarrow> f x \<noteq> None) \<Longrightarrow> agg_count (map f xs) = length xs"
  by (simp add: agg_count_def length_non_null)

lemma agg_nunique_card:
  assumes "\<And>x. x \<in> set xs \<Longrightarrow> f x \<noteq> None"
  shows "agg_nunique (map f xs) = card (f ` set xs)"
proof -
  have "card (f ` set xs) = card (set (map Some (non_null (map f xs))))"
    using non_null_all_Some [of xs f] assms by simp
  also have "\<dots> = card (Some ` set (non_null (map f xs)))" by simp
  also have "\<dots> = card (set (non_null (map f xs)))"
    by (rule card_image) simp
  also have "\<dots> = agg_nunique (map f xs)"
    by (simp add: agg_nunique_def length_remdups_card_conv)
  finally show ?thesis by simp
qed

lemma groupby_keys: "map fst (groupby key df) = sort (remdups (non_null (map key df)))"
  by (simp add: groupby_def o_def)

lemma groupby_distinct: "distinct (map fst (groupby key df))"
  by (simp add: groupby_keys)

lemma groupby_mem:
  "(k, g) \<in> set (groupby key df) \<longleftrightarrow>
     (\<exists>r \<in> set df. key r = Some k) \<and> g = filter (\<lambda>r. key r = Some k) df"
  by (force simp: groupby_def set_non_null image_iff)

lemma length_filter_disjoint:
  "(\<And>x. x \<in> set xs \<Longrightarrow> \<not> (P x \<and> Q x)) \<Longrightarrow>
     length (filter P xs) + length (filter Q xs) = length (filter (\<lambda>x. P x \<or> Q x) xs)"
  by (induction xs) auto

lemma sum_group_sizes:
  "distinct ks \<Longrightarrow>
     (\<Sum>k\<leftarrow>ks. length (filter (\<lambda>r. key r = Some k \<and> P r) df)) =
       length (filter (\<lambda>r. key r \<in> Some ` set ks \<and> P r) df)"
proof (induction ks)
  case Nil
  show ?case by simp
next
  case (Cons k ks)
  have "length (filter (\<lambda>r. key r = Some k \<and> P r) df)
          + length (filter (\<lambda>r. key r \<in> Some ` set ks \<and> P r) df) =
        length (filter (\<lambda>r. (key r = Some k \<and> P r) \<or> (key r \<in> Some ` set ks \<and> P r)) df)"
    using Cons.prems by (intro length_filter_disjoint) auto
  also have "\<dots> = length (filter (\<lambda>r. key r \<in> Some ` set (k # ks) \<and> P r) df)"
    by (rule arg_cong [where f = length], rule filter_cong) auto
  finally show ?case using Cons by simp
qed

lemma sum_groupby_count:
  "(\<Sum>(k, g)\<leftarrow>groupby key df. agg_count (map col g)) =
     length (filter (\<lambda>r. key r \<noteq> None \<and> col r \<noteq> None) df)"
proof -
  let ?ks = "sort (remdups (non_null (map key df)))"
  have "(\<Sum>(k, g)\<leftarrow>groupby key df. agg_count (map col g)) =
        (\<Sum>k\<leftarrow>?ks. length (filter (\<lambda>r. key r = Some k \<and> col r \<noteq> None) df))"
    by (simp add: groupby_def o_def agg_count_def length_non_null conj_commute)
  also have "\<dots> = length (filter (\<lambda>r. key r \<in> Some ` set ?ks \<and> col r \<noteq> None) df)"
    by (rule sum_group_sizes) simp
  also have "\<dots> = length (filter (\<lambda>r. key r \<noteq> None \<and> col r \<noteq> None) df)"
    by (rule arg_cong [where f = length], rule filter_cong) (force simp: set_non_null image_iff)+
  finally show ?thesis .
qed

lemma merge_left_key:
  assumes "\<And>l r. mkey (combine l r) = okey l" and "\<And>l. mkey (fill_null l) = okey l"
    and "m \<in> set (merge_left lkey rkey combine fill_null ls rs)"
  shows "\<exists>l \<in> set ls. mkey m = okey l"
proof -
  from assms(3) obtain l where l: "l \<in> set ls"
    and m: "m \<in> set (case filter (\<lambda>r. rkey r = lkey l) rs of
                        [] \<Rightarrow> [fill_null l] | ms \<Rightarrow> map (combine l) ms)"
    by (auto simp: merge_left_def)
  from m have "mkey m = okey l"
    by (cases "filter (\<lambda>r. rkey r = lkey l) rs") (auto simp: assms(1,2))
  with l show ?thesis by blast
qed

lemma transform_data_order_id:
  assumes "transform_data customers order_items payments orders = (merged_df, customers', orders')"
    and "m \<in> set merged_df"
  shows "merged_row.order_id m \<noteq> None"
proof -
  let ?m1 = "merge_left order_row.customer_id customer_row.customer_id
                    with_customer without_customer orders' customers'"
  let ?m2 = "merge_left oc_row.order_id item_row.order_id with_item without_item ?m1
                 (dropna [item_row.order_id] order_items)"
  from assms have m: "merged_df = merge_left oci_row.order_id payment_row.order_id
      with_payment without_payment ?m2 (dropna [payment_row.order_id] payments)"
    and o: "orders' = dropna [order_row.order_id, order_row.customer_id] orders"
    by (auto simp: transform_data_def Let_def)
  from assms(2) have mm: "m \<in> set (merge_left oci_row.order_id payment_row.order_id
      with_payment without_payment ?m2 (dropna [payment_row.order_id] payments))"
    unfolding m .
  have "\<exists>l \<in> set ?m2. merged_row.order_id m = oci_row.order_id l"
    by (rule merge_left_key [OF _ _ mm]) simp_all
  then obtain m2 where m2: "m2 \<in> set ?m2" "merged_row.order_id m = oci_row.order_id m2"
    by blast
  have "\<exists>l \<in> set ?m1. oci_row.order_id m2 = oc_row.order_id l"
    by (rule merge_left_key [OF _ _ m2(1)]) simp_all
  then obtain m1 where m1: "m1 \<in> set ?m1" "oci_row.order_id m2 = oc_row.order_id m1"
    by blast
  have "\<exists>l \<in> set orders'. oc_row.order_id m1 = order_row.order_id l"
    by (rule merge_left_key [OF _ _ m1(1)]) simp_all
  then obtain r where r: "r \<in> set orders'" "oc_row.order_id m1 = order_row.order_id r"
    by blast
  from r(1) have "order_row.order_id r \<noteq> None"
    unfolding o by (simp add: dropna_def)
  with m2(2) m1(2) r(2) show ?thesis by simp
qed

lemma sales_key_Some:
  "sales_key m = Some (c, s, t) \<longleftrightarrow>
     merged_row.customer_id m = Some c \<and> merged_row.customer_state m = Some s
       \<and> merged_row.customer_city m = Some t"
  by (auto simp: sales_key_def split: option.splits)

lemma sales_agg_row:
  assumes "row \<in> set (sales_agg df)"
  shows "sales_summary_row.total_orders row = agg_nunique (map merged_row.order_id (sales_group row df))
       \<and> sales_summary_row.total_items row = agg_count (map merged_row.order_id (sales_group row df))"
proof -
  from assms obtain c s t g where kg: "((c, s, t), g) \<in> set (groupby sales_key df)"
    and row: "row = \<lparr> sales_summary_row.customer_id = Some c,
              customer_state = Some s,
              customer_city = Some t,
              total_spent = agg_sum (map merged_row.payment_value g),
              total_orders = agg_nunique (map merged_row.order_id g),
              total_items = agg_count (map merged_row.order_id g),
              avg_order_value = agg_mean (map merged_row.payment_value g),
              avg_price = agg_mean (map merged_row.price g),
              avg_freight = agg_mean (map merged_row.freight_value g) \<rparr>"
    by (auto simp: sales_agg_def)
  from kg have "g = filter (\<lambda>m. sales_key m = Some (c, s, t)) df"
    by (simp add: groupby_mem)
  then have "g = sales_group row df"
    by (simp add: sales_group_def row sales_key_Some)
  then show ?thesis by (simp add: row)
qed

lemma sales_agg_complete:
  assumes "m \<in> set df" and "sales_key m \<noteq> None"
  shows "\<exists>row \<in> set (sales_agg df). m \<in> set (sales_group row df)"
proof -
  from assms(2) obtain c s t where k: "sales_key m = Some (c, s, t)" by auto
  let ?g = "filter (\<lambda>m. sales_key m = Some (c, s, t)) df"
  let ?row = "\<lparr> sales_summary_row.customer_id = Some c,
              customer_state = Some s,
              customer_city = Some t,
              total_spent = agg_sum (map merged_row.payment_value ?g),
              total_orders = agg_nunique (map merged_row.order_id ?g),
              total_items = agg_count (map merged_row.order_id ?g),
              avg_order_value = agg_mean (map merged_row.payment_value ?g),
              avg_price = agg_mean (map merged_row.price ?g),
              avg_freight = agg_mean (map merged_row.freight_value ?g) \<rparr>"
  from assms(1) k have "((c, s, t), ?g) \<in> set (groupby sales_key df)"
    by (auto simp: groupby_mem)
  then have "?row \<in> set (sales_agg df)"
    by (force simp: sales_agg_def)
  moreover from assms(1) k have "m \<in> set (sales_group ?row df)"
    by (simp add: sales_group_def sales_key_Some [symmetric])
  ultimately show ?thesis by blast
qed

lemma create_sales_summary_row:
  assumes "row \<in> set (create_sales_summary df) \<union> set (prefect_create_sales_summary df)"
  shows "\<exists>r \<in> set (sales_agg df).
           sales_group row df = sales_group r df
         \<and> sales_summary_row.total_orders row = sales_summary_row.total_orders r
         \<and> sales_summary_row.total_items row = sales_summary_row.total_items r"
  using assms
  by (fastforce simp: create_sales_summary_def prefect_create_sales_summary_def Let_def
        sales_fillna_def sales_group_def)

lemma sales_agg_in_create:
  assumes "r \<in> set (sales_agg df)"
  shows "\<exists>row \<in> set (create_sales_summary df). sales_group row df = sales_group r df"
  using assms
  by (fastforce simp: create_sales_summary_def Let_def sales_fillna_def sales_group_def)

lemma sales_agg_in_prefect:
  assumes "r \<in> set (sales_agg df)"
  shows "\<exists>row \<in> set (prefect_create_sales_summary df). sales_group row df = sales_group r df"
  using assms
  by (fastforce simp: prefect_create_sales_summary_def Let_def sales_group_def)

lemma sales_agg_keys:
  "map sales_row_key (sales_agg df) =
     map (\<lambda>(c, s, t). (Some c, Some s, Some t)) (sort (remdups (non_null (map sales_key df))))"
  by (simp add: sales_agg_def groupby_def o_def split_def sales_row_key_def)

lemma create_sales_summary_keys:
  "map sales_row_key (create_sales_summary df) = map sales_row_key (sales_agg df)"
  "map sales_row_key (prefect_create_sales_summary df) = map sales_row_key (sales_agg df)"
  by (simp_all add: create_sales_summary_def prefect_create_sales_summary_def Let_def o_def
        sales_row_key_def sales_fillna_def)

lemma distinct_sales_agg_keys: "distinct (map sales_row_key (sales_agg df))"
  unfolding sales_agg_keys
  by (rule iffD2 [OF distinct_map]) (auto simp: inj_on_def)

text \<open>
  Claim C1. On the merged frame that \<^verbatim>\<open>transform_data\<close> produces, every row of the
  sales summary (of either pipeline file) has \<open>total_orders\<close> equal to the number of
  distinct order ids among the merged rows of its (customer_id, customer_state,
  customer_city) group and \<open>total_items\<close> equal to the number of those rows. Each of the
  two summaries has a row for every group, that is, every merged row whose three key
  columns are non-null lies in the group of one of its rows, and no two rows of a summary
  have the same key. The witness is the customer with one order of two items and three
  payments: \<open>total_orders = 1\<close>, \<open>total_items = 6\<close>, in both summaries.
\<close>

theorem sales_summary_counts:
  assumes "transform_data customers order_items payments orders = (merged_df, customers', orders')"
  shows "(\<forall>row \<in> set (create_sales_summary merged_df) \<union> set (prefect_create_sales_summary merged_df).
            sales_summary_row.total_orders row =
              card (merged_row.order_id ` set (sales_group row merged_df))
          \<and> sales_summary_row.total_items row = length (sales_group row merged_df))
       \<and> (\<forall>m \<in> set merged_df. sales_key m \<noteq> None \<longrightarrow>
            (\<exists>row \<in> set (create_sales_summary merged_df). m \<in> set (sales_group row merged_df))
          \<and> (\<exists>row \<in> set (prefect_create_sales_summary merged_df).
                m \<in> set (sales_group row merged_df)))
       \<and> distinct (map sales_row_key (create_sales_summary merged_df))
       \<and> distinct (map sales_row_key (prefect_create_sales_summary merged_df))"
proof (intro conjI ballI impI)
  fix row
  assume "row \<in> set (create_sales_summary merged_df) \<union> set (prefect_create_sales_summary merged_df)"
  then obtain r where r: "r \<in> set (sales_agg merged_df)"
      "sales_group row merged_df = sales_group r merged_df"
      "sales_summary_row.total_orders row = sales_summary_row.total_orders r"
      "sales_summary_row.total_items row = sales_summary_row.total_items r"
    using create_sales_summary_row by blast
  have nn: "\<And>m. m \<in> set (sales_group r merged_df) \<Longrightarrow> merged_row.order_id m \<noteq> None"
    using transform_data_order_id [OF assms] by (simp add: sales_group_def)
  from sales_agg_row [OF r(1)] r(2,3)
  show "sales_summary_row.total_orders row =
          card (merged_row.order_id ` set (sales_group row merged_df))"
    by (simp add: agg_nunique_card [OF nn])
  from sales_agg_row [OF r(1)] r(2,4)
  show "sales_summary_row.total_items row = length (sales_group row merged_df)"
    by (simp add: agg_count_rows [OF nn])
next
  fix m assume "m \<in> set merged_df" "sales_key m \<noteq> None"
  then obtain r where r: "r \<in> set (sales_agg merged_df)" "m \<in> set (sales_group r merged_df)"
    using sales_agg_complete by blast
  from r show "\<exists>row \<in> set (create_sales_summary merged_df). m \<in> set (sales_group row merged_df)"
    using sales_agg_in_create by metis
  from r show "\<exists>row \<in> set (prefect_create_sales_summary merged_df).
      m \<in> set (sales_group row merged_df)"
    using sales_agg_in_prefect by metis
next
  show "distinct (map sales_row_key (create_sales_summary merged_df))"
    by (simp only: create_sales_summary_keys distinct_sales_agg_keys)
  show "distinct (map sales_row_key (prefect_create_sales_summary merged_df))"
    by (simp only: create_sales_summary_keys distinct_sales_agg_keys)
qed

theorem sales_summary_counts_witness:
  "map (\<lambda>row. (sales_summary_row.customer_id row, sales_summary_row.total_orders row,
                sales_summary_row.total_items row))
     (create_sales_summary (fst (transform_data sp_customers sp_items sp_payments sp_orders)))
     = [(Some ''c1'', 1, 6)]
   \<and> map (\<lambda>row. (sales_summary_row.customer_id row, sales_summary_row.total_orders row,
                sales_summary_row.total_items row))
     (prefect_create_sales_summary
        (fst (transform_data sp_customers sp_items sp_payments sp_orders)))
     = [(Some ''c1'', 1, 6)]
   \<and> length (fst (transform_data sp_customers sp_items sp_payments sp_orders)) = 6
   \<and> card (merged_row.order_id ` set (fst (transform_data sp_customers sp_items sp_payments sp_orders))) = 1"
proof -
  let ?m = "fst (transform_data sp_customers sp_items sp_payments sp_orders)"
  have t: "transform_data sp_customers sp_items sp_payments sp_orders = (?m, sp_customers, sp_orders)"
    by (simp add: transform_data_def Let_def dropna_def sample_defs)
  have e: "map (\<lambda>row. (sales_summary_row.customer_id row, sales_summary_row.total_orders row,
                sales_summary_row.total_items row)) (create_sales_summary ?m) = [(Some ''c1'', 1, 6)]"
    by (simp add: merge_defs sample_defs Let_def create_sales_summary_def sales_agg_def groupby_def
          sales_key_def agg_nunique_def agg_count_def sales_fillna_def)
  have p: "map (\<lambda>row. (sales_summary_row.customer_id row, sales_summary_row.total_orders row,
                sales_summary_row.total_items row)) (prefect_create_sales_summary ?m)
             = [(Some ''c1'', 1, 6)]"
    by (simp add: merge_defs sample_defs Let_def prefect_create_sales_summary_def sales_agg_def
          groupby_def sales_key_def agg_nunique_def agg_count_def)
  have l: "length ?m = 6"
    by (simp add: merge_defs sample_defs Let_def)
  have c: "card (merged_row.order_id ` set ?m) = 1"
    by (simp add: merge_defs sample_defs Let_def)
  from sales_summary_counts [OF t] e p l c show ?thesis by simp
qed

text \<open>
  Claim C3, as stated, fails: an order without items is merged into rows whose
  \<^verbatim>\<open>product_id\<close> is null, and the product summary of that frame is empty.
\<close>

theorem product_summary_null_counterexample:
  "map merged_row.product_id (fst (transform_data sp_customers [] sp_payments sp_orders))
     = [None, None, None]
   \<and> create_product_summary (fst (transform_data sp_customers [] sp_payments sp_orders)) = []"
  by (simp add: merge_defs sample_defs Let_def create_product_summary_def groupby_def)

text \<open>
  Claim C3, amended. The product summary has exactly one row for each distinct non-null
  \<^verbatim>\<open>product_id\<close> of the merged frame, in ascending order, and none for the null
  \<^verbatim>\<open>product_id\<close>: the rows without a product are left out, and the item counts of the
  summary add up to the merged rows that have a product (and an order id).
\<close>

theorem product_summary_excludes_null:
  "map product_summary_row.product_id (create_product_summary merged_df) =
     map Some (sort (remdups (non_null (map merged_row.product_id merged_df))))
   \<and> None \<notin> set (map product_summary_row.product_id (create_product_summary merged_df))
   \<and> sum_list (map total_items_sold (create_product_summary merged_df)) =
       length (filter (\<lambda>m. merged_row.product_id m \<noteq> None \<and> merged_row.order_id m \<noteq> None)
                 merged_df)"
proof (intro conjI)
  show k: "map product_summary_row.product_id (create_product_summary merged_df) =
     map Some (sort (remdups (non_null (map merged_row.product_id merged_df))))"
    by (simp add: create_product_summary_def groupby_def o_def)
  show "None \<notin> set (map product_summary_row.product_id (create_product_summary merged_df))"
    unfolding k by auto
  have "map total_items_sold (create_product_summary merged_df) =
        map (\<lambda>(k, g). agg_count (map merged_row.order_id g))
          (groupby merged_row.product_id merged_df)"
    by (simp add: create_product_summary_def o_def split_def)
  then show "sum_list (map total_items_sold (create_product_summary merged_df)) =
       length (filter (\<lambda>m. merged_row.product_id m \<noteq> None \<and> merged_row.order_id m \<noteq> None)
                 merged_df)"
    by (simp add: sum_groupby_count)
qed

text \<open>
  Claim C7. On the merged frame that \<^verbatim>\<open>transform_data\<close> produces, the \<open>total_items\<close>
  of the state summary add up to the number of merged rows whose \<^verbatim>\<open>customer_state\<close> is
  not null: the rows with a null state are excluded, all of them; without such rows the
  sum is the row count of the merged frame.
\<close>

theorem state_summary_conservation:
  assumes "transform_data customers order_items payments orders = (merged_df, customers', orders')"
  shows "sum_list (map state_summary_row.total_items (create_state_summary merged_df)) =
           length merged_df - length (filter (\<lambda>m. merged_row.customer_state m = None) merged_df)"
proof -
  have "map state_summary_row.total_items (create_state_summary merged_df) =
        map (\<lambda>(k, g). agg_count (map merged_row.order_id g))
          (groupby merged_row.customer_state merged_df)"
    by (simp add: create_state_summary_def o_def split_def)
  then have "sum_list (map state_summary_row.total_items (create_state_summary merged_df)) =
       length (filter (\<lambda>m. merged_row.customer_state m \<noteq> None \<and> merged_row.order_id m \<noteq> None)
                 merged_df)"
    by (simp add: sum_groupby_count)
  also have "\<dots> = length (filter (\<lambda>m. merged_row.customer_state m \<noteq> None) merged_df)"
    by (rule arg_cong [where f = length], rule filter_cong)
       (use transform_data_order_id [OF assms] in auto)
  also have "\<dots> = length merged_df
                   - length (filter (\<lambda>m. merged_row.customer_state m = None) merged_df)"
    using sum_length_filter_compl [of "\<lambda>m. merged_row.customer_state m = None" merged_df]
    by simp
  finally show ?thesis .
qed

theorem state_summary_conservation_witness:
  "map (\<lambda>row. (state_summary_row.customer_state row, state_summary_row.total_items row))
     (create_state_summary (fst (transform_data null_state_customers sp_items [] three_orders)))
     = [(Some ''SP'', 2)]
   \<and> length (fst (transform_data null_state_customers sp_items [] three_orders)) = 4
   \<and> length (filter (\<lambda>m. merged_row.customer_state m = None)
        (fst (transform_data null_state_customers sp_items [] three_orders))) = 2"
proof -
  let ?m = "fst (transform_data null_state_customers sp_items [] three_orders)"
  have t: "transform_data null_state_customers sp_items [] three_orders =
             (?m, null_state_customers, three_orders)"
    by (simp add: transform_data_def Let_def dropna_def sample_defs
          null_state_customers_def three_orders_def)
  have e: "map (\<lambda>row. (state_summary_row.customer_state row, state_summary_row.total_items row))
     (create_state_summary ?m) = [(Some ''SP'', 2)]"
    by (simp add: merge_defs sample_defs null_state_customers_def three_orders_def Let_def
          create_state_summary_def groupby_def agg_count_def)
  have l: "length ?m = 4"
    by (simp add: merge_defs sample_defs null_state_customers_def three_orders_def Let_def)
  have n: "length (filter (\<lambda>m. merged_row.customer_state m = None) ?m) = 2"
    by (simp add: merge_defs sample_defs null_state_customers_def three_orders_def Let_def)
  from state_summary_conservation [OF t] e l n show ?thesis by simp
qed

lemma create_sales_summary_prefect:
  "create_sales_summary merged_df = map nan_to_zero (prefect_create_sales_summary merged_df)"
  by (simp add: create_sales_summary_def prefect_create_sales_summary_def Let_def
        sales_fillna_def nan_to_zero_def float_or_zero_def fillna0_def split: option.splits)

text \<open>
  Claim C4 at an order without items (the customer, the order and its three payments are
  those of the sample): every price of the group is null, so the mean is NaN. The
  function of \<^verbatim>\<open>pipeline_olist.py\<close> stores 0; the one of \<^verbatim>\<open>prefect_pipeline.py\<close> hands
  the NaN to the \<^verbatim>\<open>INSERT\<close>.
\<close>

theorem sales_summaries_differ:
  "map sales_summary_row.avg_price
     (create_sales_summary (fst (transform_data sp_customers [] sp_payments sp_orders))) = [Some 0]
   \<and> map sales_summary_row.avg_price
     (prefect_create_sales_summary (fst (transform_data sp_customers [] sp_payments sp_orders)))
       = [None]"
  by (simp add: merge_defs sample_defs Let_def create_sales_summary_def
        prefect_create_sales_summary_def sales_agg_def groupby_def sales_key_def
        sales_fillna_def agg_mean_def mean_def fillna0_def float_or_zero_def)

section \<open>Properties of the delivery summary\<close>

lemma delivery_row_simps [simp]:
  "delivery_row.order_id (delivery_with_customer r c) = order_dt_row.order_id r"
  "delivery_row.order_id (delivery_without_customer r) = order_dt_row.order_id r"
  "delivery_row.delivery_days (delivery_with_customer r c) = order_dt_row.delivery_days r"
  "delivery_row.delivery_days (delivery_without_customer r) = order_dt_row.delivery_days r"
  by (simp_all add: delivery_with_customer_def delivery_without_customer_def)

lemma zip_maps:
  "zip xs (zip (map f xs) (zip (map g xs) (map h xs))) = map (\<lambda>x. (x, f x, g x, h x)) xs"
  by (induction xs) simp_all

lemma map2_maps: "map2 k (map f xs) (map g xs) = map (\<lambda>x. k (f x) (g x)) xs"
  by (induction xs) simp_all

text \<open>The three assignments, row by row: each cell is read with the parser of its column.\<close>

lemma parse_orders_rows:
  "parse_orders p orders =
     map (\<lambda>r. \<lparr> order_dt_row.order_id = order_row.order_id r,
                 customer_id = order_row.customer_id r,
                 order_status = order_row.order_status r,
                 order_purchase_timestamp =
                   (case order_row.order_purchase_timestamp r of
                      None \<Rightarrow> None
                    | Some s \<Rightarrow> p (map order_row.order_purchase_timestamp orders) s),
                 order_delivered_customer_date =
                   (case order_row.order_delivered_customer_date r of
                      None \<Rightarrow> None
                    | Some s \<Rightarrow> p (map order_row.order_delivered_customer_date orders) s),
                 delivery_days =
                   timedelta_days
                     (case order_row.order_delivered_customer_date r of
                        None \<Rightarrow> None
                      | Some s \<Rightarrow> p (map order_row.order_delivered_customer_date orders) s)
                     (case order_row.order_purchase_timestamp r of
                        None \<Rightarrow> None
                      | Some s \<Rightarrow> p (map order_row.order_purchase_timestamp orders) s) \<rparr>)
       orders"
  by (simp add: parse_orders_def Let_def to_datetime_def map2_maps zip_maps o_def)

lemma parse_orders_order_id:
  "map order_dt_row.order_id (parse_orders p orders) = map order_row.order_id orders"
  by (simp add: parse_orders_rows o_def)

lemma create_delivery_summary_Loaded:
  "create_delivery_summary p (Loaded orders) customers =
     (Parsed (parse_orders p orders), customers,
      map (\<lambda>(s, g). delivery_agg s g)
        (groupby delivery_row.customer_state (delivery_data_of p orders customers)))"
  by (simp add: create_delivery_summary_def delivery_data_of_def Let_def)

lemma delivery_data_order_id:
  assumes "\<And>r. r \<in> set orders \<Longrightarrow> order_row.order_id r \<noteq> None"
    and "d \<in> set (delivery_data_of p orders customers)"
  shows "delivery_row.order_id d \<noteq> None"
proof -
  have "\<exists>l \<in> set (parse_orders p orders). delivery_row.order_id d = order_dt_row.order_id l"
    by (rule merge_left_key [OF _ _ assms(2) [unfolded delivery_data_of_def]]) simp_all
  then obtain l where l: "l \<in> set (parse_orders p orders)"
    and d: "delivery_row.order_id d = order_dt_row.order_id l"
    by blast
  from l have "order_dt_row.order_id l \<in> set (map order_dt_row.order_id (parse_orders p orders))"
    by simp
  then have "order_dt_row.order_id l \<in> order_row.order_id ` set orders"
    by (simp only: parse_orders_order_id set_map)
  with assms(1) d show ?thesis by auto
qed

lemma delivery_summary_row:
  assumes "row \<in> set (map (\<lambda>(s, g). delivery_agg s g) (groupby delivery_row.customer_state dd))"
  shows "\<exists>s. delivery_summary_row.customer_state row = Some s
           \<and> row = delivery_agg s (delivery_group row dd)
           \<and> delivery_group row dd \<noteq> []"
proof -
  from assms obtain s g where sg: "(s, g) \<in> set (groupby delivery_row.customer_state dd)"
    and row: "row = delivery_agg s g"
    by auto
  from sg have g: "g = filter (\<lambda>r. delivery_row.customer_state r = Some s) dd"
    and ne: "\<exists>r \<in> set dd. delivery_row.customer_state r = Some s"
    by (simp_all add: groupby_mem)
  have st: "delivery_summary_row.customer_state row = Some s"
    by (simp add: row delivery_agg_def Let_def)
  with g have gg: "g = delivery_group row dd"
    by (simp add: delivery_group_def)
  from ne g have "g \<noteq> []" by (auto simp: filter_empty_conv)
  with gg have ne': "delivery_group row dd \<noteq> []" by blast
  have row': "row = delivery_agg s (delivery_group row dd)"
    by (subst gg [symmetric]) (rule row)
  from st row' ne' show ?thesis by blast
qed

text \<open>
  Claim C5. For the cleaned orders and customers that \<^verbatim>\<open>transform_data\<close> returns,
  every row of the delivery summary has \<open>total_orders\<close> equal to the number of rows of
  its state's group, \<open>delivered_orders\<close> equal to the number of those rows with a
  non-null \<^verbatim>\<open>delivery_days\<close>, \<open>delivered_orders \<le> total_orders\<close>, and a finite
  \<open>delivery_rate\<close> between 0 and 100.
\<close>

theorem delivery_rate_bounds:
  assumes "transform_data customers order_items payments orders = (merged_df, customers', orders')"
    and "create_delivery_summary parse_datetime (Loaded orders') customers'
           = (orders'', customers'', summary)"
  shows "\<forall>row \<in> set summary.
           delivery_summary_row.total_orders row =
             length (delivery_group row (delivery_data_of parse_datetime orders' customers'))
         \<and> delivered_orders row =
             length (filter (\<lambda>r. delivery_row.delivery_days r \<noteq> None)
               (delivery_group row (delivery_data_of parse_datetime orders' customers')))
         \<and> delivered_orders row \<le> delivery_summary_row.total_orders row
         \<and> (\<exists>x. delivery_rate row = Finite x \<and> 0 \<le> x \<and> x \<le> 100)"
proof
  fix row assume "row \<in> set summary"
  let ?dd = "delivery_data_of parse_datetime orders' customers'"
  let ?g = "delivery_group row ?dd"
  from assms(1) have o: "orders' = dropna [order_row.order_id, order_row.customer_id] orders"
    by (auto simp: transform_data_def Let_def)
  from assms(2) \<open>row \<in> set summary\<close>
  have "row \<in> set (map (\<lambda>(s, g). delivery_agg s g) (groupby delivery_row.customer_state ?dd))"
    by (auto simp: create_delivery_summary_Loaded)
  then obtain s where row: "row = delivery_agg s ?g" and ne: "?g \<noteq> []"
    using delivery_summary_row by blast
  have nn: "\<And>d. d \<in> set ?g \<Longrightarrow> delivery_row.order_id d \<noteq> None"
  proof -
    fix d assume "d \<in> set ?g"
    then have "d \<in> set ?dd" by (simp add: delivery_group_def)
    then show "delivery_row.order_id d \<noteq> None"
      by (rule delivery_data_order_id [rotated]) (simp add: o dropna_def)
  qed
  have tot: "delivery_summary_row.total_orders row = length ?g"
    by (subst row) (simp add: delivery_agg_def Let_def agg_count_rows [OF nn])
  have del: "delivered_orders row = length (filter (\<lambda>r. delivery_row.delivery_days r \<noteq> None) ?g)"
    by (subst row) (simp add: delivery_agg_def Let_def agg_count_def length_non_null)
  have le: "delivered_orders row \<le> delivery_summary_row.total_orders row"
    unfolding tot del by simp
  from ne tot have pos: "0 < delivery_summary_row.total_orders row" by simp
  have rate: "delivery_rate row =
      delivery_rate_of (delivered_orders row) (delivery_summary_row.total_orders row)"
  proof -
    have "delivery_rate (delivery_agg s ?g) =
      delivery_rate_of (delivered_orders (delivery_agg s ?g))
        (delivery_summary_row.total_orders (delivery_agg s ?g))"
      by (simp add: delivery_agg_def Let_def)
    then show ?thesis by (simp only: row [symmetric])
  qed
  from le have "real (delivered_orders row) \<le> real (delivery_summary_row.total_orders row)"
    by simp
  with pos
  have "real (delivered_orders row) / real (delivery_summary_row.total_orders row) * 100 \<le> 100"
    by (simp add: pos_divide_le_eq)
  with pos have "\<exists>x. delivery_rate row = Finite x \<and> 0 \<le> x \<and> x \<le> 100"
    by (simp add: rate delivery_rate_of_def)
  with tot del le
  show "delivery_summary_row.total_orders row = length ?g
         \<and> delivered_orders row = length (filter (\<lambda>r. delivery_row.delivery_days r \<noteq> None) ?g)
         \<and> delivered_orders row \<le> delivery_summary_row.total_orders row
         \<and> (\<exists>x. delivery_rate row = Finite x \<and> 0 \<le> x \<and> x \<le> 100)"
    by simp
qed

theorem delivery_rate_bounds_witness:
  "map (\<lambda>row. (delivery_summary_row.customer_state row, delivery_summary_row.total_orders row,
                delivered_orders row, delivery_rate row))
     (snd (snd (create_delivery_summary sample_parse (Loaded sp_two_orders) sp_customers)))
   = [(Some ''SP'', 2, 1, Finite 50)]"
proof -
  let ?m = "fst (transform_data sp_customers [] [] sp_two_orders)"
  let ?r = "create_delivery_summary sample_parse (Loaded sp_two_orders) sp_customers"
  have t: "transform_data sp_customers [] [] sp_two_orders = (?m, sp_customers, sp_two_orders)"
    by (simp add: transform_data_def Let_def dropna_def sample_defs sp_two_orders_def)
  have c: "?r = (fst ?r, fst (snd ?r), snd (snd ?r))"
    by simp
  have e: "map (\<lambda>row. (delivery_summary_row.customer_state row,
                delivery_summary_row.total_orders row, delivered_orders row, delivery_rate row))
     (snd (snd ?r)) = [(Some ''SP'', 2, 1, Finite 50)]"
    by (simp add: create_delivery_summary_Loaded delivery_data_of_def merge_left_def
          delivery_with_customer_def parse_orders_def Let_def to_datetime_def sample_parse_def
          timedelta_days_def ns_per_day_def groupby_def delivery_agg_def agg_count_def
          delivery_rate_of_def sample_defs sp_two_orders_def)
  from delivery_rate_bounds [OF t c] e show ?thesis by simp
qed


lemma non_null_the:
  "non_null (map f g) = map (\<lambda>r. the (f r)) (filter (\<lambda>r. f r \<noteq> None) g)"
  by (induction g) auto

lemma floor_days:
  "\<lfloor>(real_of_int d - real_of_int p) / real_of_int n\<rfloor> = (d - p) div n"
  using floor_divide_of_int_eq [of "d - p" n, where ?'a = real] by simp

lemma agg_min_Min:
  "agg_min col = (if non_null col = [] then None else Some (Min (set (non_null col))))"
  by (cases "non_null col") (simp_all add: agg_min_def Min.set_eq_fold del: set_simps)

lemma agg_max_Max:
  "agg_max col = (if non_null col = [] then None else Some (Max (set (non_null col))))"
  by (cases "non_null col") (simp_all add: agg_max_def Max.set_eq_fold del: set_simps)

text \<open>The fields of a summary row, written out over the rows of the group that were delivered.\<close>

lemma delivery_agg_fields:
  fixes g :: "delivery_row list"
  defines "delivered \<equiv> filter (\<lambda>r. delivery_row.delivery_days r \<noteq> None) g"
  defines "days \<equiv> map (\<lambda>r. real_of_int (the (delivery_row.delivery_days r))) delivered"
  shows "delivery_summary_row.customer_state (delivery_agg s g) = Some s"
    and "delivery_summary_row.total_orders (delivery_agg s g) =
           length (filter (\<lambda>r. delivery_row.order_id r \<noteq> None) g)"
    and "delivered_orders (delivery_agg s g) = length delivered"
    and "delivery_rate (delivery_agg s g) =
           (if delivery_summary_row.total_orders (delivery_agg s g) = 0
            then (if delivered = [] then NaN else PosInf)
            else Finite (real (length delivered)
                   / real (delivery_summary_row.total_orders (delivery_agg s g)) * 100))"
    and "avg_delivery_days (delivery_agg s g) =
           (if days = [] then None else Some (sum_list days / real (length days)))"
    and "median_delivery_days (delivery_agg s g) =
           (if days = [] then None
            else if odd (length days) then Some (sort days ! (length days div 2))
            else Some ((sort days ! (length days div 2 - 1) + sort days ! (length days div 2)) / 2))"
    and "fastest_delivery (delivery_agg s g) =
           (if delivered = [] then None
            else Some (Min (set (map (\<lambda>r. the (delivery_row.delivery_days r)) delivered))))"
    and "slowest_delivery (delivery_agg s g) =
           (if delivered = [] then None
            else Some (Max (set (map (\<lambda>r. the (delivery_row.delivery_days r)) delivered))))"
    and "std_delivery_days (delivery_agg s g) =
           (if length days < 2 then None
            else Some (sqrt ((\<Sum>x\<leftarrow>days. (x - sum_list days / real (length days))\<^sup>2)
                              / real (length days - 1))))"
proof -
  have nn: "non_null (map delivery_row.delivery_days g) =
              map (\<lambda>r. the (delivery_row.delivery_days r)) delivered"
    unfolding delivered_def by (rule non_null_the)
  have dv: "day_values (map delivery_row.delivery_days g) = days"
    by (simp add: day_values_def nn days_def o_def)
  have len: "length days = length delivered" "days = [] \<longleftrightarrow> delivered = []"
    by (simp_all add: days_def)
  show "delivery_summary_row.customer_state (delivery_agg s g) = Some s"
    by (simp add: delivery_agg_def Let_def)
  show "delivery_summary_row.total_orders (delivery_agg s g) =
           length (filter (\<lambda>r. delivery_row.order_id r \<noteq> None) g)"
    by (simp add: delivery_agg_def Let_def agg_count_def length_non_null)
  show d: "delivered_orders (delivery_agg s g) = length delivered"
    by (simp add: delivery_agg_def Let_def agg_count_def nn)
  have "delivery_rate (delivery_agg s g) =
          delivery_rate_of (delivered_orders (delivery_agg s g))
            (delivery_summary_row.total_orders (delivery_agg s g))"
    by (simp add: delivery_agg_def Let_def)
  then show "delivery_rate (delivery_agg s g) =
           (if delivery_summary_row.total_orders (delivery_agg s g) = 0
            then (if delivered = [] then NaN else PosInf)
            else Finite (real (length delivered)
                   / real (delivery_summary_row.total_orders (delivery_agg s g)) * 100))"
    by (simp only: d delivery_rate_of_def length_0_conv)
  show "avg_delivery_days (delivery_agg s g) =
           (if days = [] then None else Some (sum_list days / real (length days)))"
    by (simp add: delivery_agg_def Let_def dv mean_def)
  show "median_delivery_days (delivery_agg s g) =
           (if days = [] then None
            else if odd (length days) then Some (sort days ! (length days div 2))
            else Some ((sort days ! (length days div 2 - 1) + sort days ! (length days div 2)) / 2))"
    by (simp add: delivery_agg_def Let_def dv median_def)
  show "fastest_delivery (delivery_agg s g) =
           (if delivered = [] then None
            else Some (Min (set (map (\<lambda>r. the (delivery_row.delivery_days r)) delivered))))"
    by (simp add: delivery_agg_def Let_def agg_min_Min nn del: set_map)
  show "slowest_delivery (delivery_agg s g) =
           (if delivered = [] then None
            else Some (Max (set (map (\<lambda>r. the (delivery_row.delivery_days r)) delivered))))"
    by (simp add: delivery_agg_def Let_def agg_max_Max nn del: set_map)
  show "std_delivery_days (delivery_agg s g) =
           (if length days < 2 then None
            else Some (sqrt ((\<Sum>x\<leftarrow>days. (x - sum_list days / real (length days))\<^sup>2)
                              / real (length days - 1))))"
    by (auto simp: delivery_agg_def Let_def dv std_def mean_def)
qed

text \<open>
  Claim C6. After \<^verbatim>\<open>create_delivery_summary\<close> the \<^verbatim>\<open>delivery_days\<close> of an order is
  non-null only when both the purchase and the delivered timestamp are texts that parse
  (each in its column), and then it is the floor of their difference in days. In every
  row of the summary, \<open>delivered_orders\<close> is the number of rows of the state's group with
  a non-null \<^verbatim>\<open>delivery_days\<close>; \<open>delivery_rate\<close> is that number divided by
  \<open>total_orders\<close>, times 100; and mean, median, minimum, maximum and sample standard
  deviation are those of the non-null \<^verbatim>\<open>delivery_days\<close> of the group.
\<close>

theorem delivery_days_definition:
  assumes "create_delivery_summary parse_datetime (Loaded orders) customers
             = (orders', customers', summary)"
  shows "(\<exists>rows. orders' = Parsed rows
            \<and> map order_dt_row.delivery_days rows =
                map (\<lambda>r. case (order_row.order_purchase_timestamp r,
                                order_row.order_delivered_customer_date r) of
                            (Some ps, Some ds) \<Rightarrow>
                              (case (parse_datetime
                                       (map order_row.order_purchase_timestamp orders) ps,
                                     parse_datetime
                                       (map order_row.order_delivered_customer_date orders) ds) of
                                 (Some p, Some d) \<Rightarrow>
                                   Some \<lfloor>real_of_int (d - p) / real_of_int ns_per_day\<rfloor>
                               | _ \<Rightarrow> None)
                          | _ \<Rightarrow> None) orders)
       \<and> (\<forall>row \<in> set summary.
            \<exists>s group delivered days.
              group = delivery_group row (delivery_data_of parse_datetime orders customers)
            \<and> delivered = filter (\<lambda>r. delivery_row.delivery_days r \<noteq> None) group
            \<and> days = map (\<lambda>r. real_of_int (the (delivery_row.delivery_days r))) delivered
            \<and> delivery_summary_row.customer_state row = Some s
            \<and> delivery_summary_row.total_orders row =
                length (filter (\<lambda>r. delivery_row.order_id r \<noteq> None) group)
            \<and> delivered_orders row = length delivered
            \<and> delivery_rate row =
                (if delivery_summary_row.total_orders row = 0
                 then (if delivered = [] then NaN else PosInf)
                 else Finite (real (length delivered)
                        / real (delivery_summary_row.total_orders row) * 100))
            \<and> avg_delivery_days row =
                (if days = [] then None else Some (sum_list days / real (length days)))
            \<and> median_delivery_days row =
                (if days = [] then None
                 else if odd (length days) then Some (sort days ! (length days div 2))
                 else Some ((sort days ! (length days div 2 - 1)
                              + sort days ! (length days div 2)) / 2))
            \<and> fastest_delivery row =
                (if delivered = [] then None
                 else Some (Min (set (map (\<lambda>r. the (delivery_row.delivery_days r)) delivered))))
            \<and> slowest_delivery row =
                (if delivered = [] then None
                 else Some (Max (set (map (\<lambda>r. the (delivery_row.delivery_days r)) delivered))))
            \<and> std_delivery_days row =
                (if length days < 2 then None
                 else Some (sqrt ((\<Sum>x\<leftarrow>days. (x - sum_list days / real (length days))\<^sup>2)
                                   / real (length days - 1)))))"
proof (intro conjI ballI)
  from assms have o: "orders' = Parsed (parse_orders parse_datetime orders)"
    by (auto simp: create_delivery_summary_Loaded)
  have "map order_dt_row.delivery_days (parse_orders parse_datetime orders) =
                map (\<lambda>r. case (order_row.order_purchase_timestamp r,
                                order_row.order_delivered_customer_date r) of
                            (Some ps, Some ds) \<Rightarrow>
                              (case (parse_datetime
                                       (map order_row.order_purchase_timestamp orders) ps,
                                     parse_datetime
                                       (map order_row.order_delivered_customer_date orders) ds) of
                                 (Some p, Some d) \<Rightarrow>
                                   Some \<lfloor>real_of_int (d - p) / real_of_int ns_per_day\<rfloor>
                               | _ \<Rightarrow> None)
                          | _ \<Rightarrow> None) orders"
    by (auto simp: parse_orders_rows timedelta_days_def floor_days split: option.splits)
  with o show "\<exists>rows. orders' = Parsed rows
            \<and> map order_dt_row.delivery_days rows =
                map (\<lambda>r. case (order_row.order_purchase_timestamp r,
                                order_row.order_delivered_customer_date r) of
                            (Some ps, Some ds) \<Rightarrow>
                              (case (parse_datetime
                                       (map order_row.order_purchase_timestamp orders) ps,
                                     parse_datetime
                                       (map order_row.order_delivered_customer_date orders) ds) of
                                 (Some p, Some d) \<Rightarrow>
                                   Some \<lfloor>real_of_int (d - p) / real_of_int ns_per_day\<rfloor>
                               | _ \<Rightarrow> None)
                          | _ \<Rightarrow> None) orders"
    by blast
next
  fix row assume "row \<in> set summary"
  let ?dd = "delivery_data_of parse_datetime orders customers"
  let ?g = "delivery_group row ?dd"
  let ?d = "filter (\<lambda>r. delivery_row.delivery_days r \<noteq> None) ?g"
  let ?days = "map (\<lambda>r. real_of_int (the (delivery_row.delivery_days r))) ?d"
  from assms \<open>row \<in> set summary\<close>
  have "row \<in> set (map (\<lambda>(s, g). delivery_agg s g) (groupby delivery_row.customer_state ?dd))"
    by (auto simp: create_delivery_summary_Loaded)
  then obtain s where row: "row = delivery_agg s ?g"
    using delivery_summary_row by blast
  note f = delivery_agg_fields [of s ?g]
  have "delivery_summary_row.customer_state (delivery_agg s ?g) = Some s
      \<and> delivery_summary_row.total_orders (delivery_agg s ?g) =
          length (filter (\<lambda>r. delivery_row.order_id r \<noteq> None) ?g)
      \<and> delivered_orders (delivery_agg s ?g) = length ?d
      \<and> delivery_rate (delivery_agg s ?g) =
          (if delivery_summary_row.total_orders (delivery_agg s ?g) = 0
           then (if ?d = [] then NaN else PosInf)
           else Finite (real (length ?d)
                  / real (delivery_summary_row.total_orders (delivery_agg s ?g)) * 100))
      \<and> avg_delivery_days (delivery_agg s ?g) =
          (if ?days = [] then None else Some (sum_list ?days / real (length ?days)))
      \<and> median_delivery_days (delivery_agg s ?g) =
          (if ?days = [] then None
           else if odd (length ?days) then Some (sort ?days ! (length ?days div 2))
           else Some ((sort ?days ! (length ?days div 2 - 1)
                        + sort ?days ! (length ?days div 2)) / 2))
      \<and> fastest_delivery (delivery_agg s ?g) =
          (if ?d = [] then None
           else Some (Min (set (map (\<lambda>r. the (delivery_row.delivery_days r)) ?d))))
      \<and> slowest_delivery (delivery_agg s ?g) =
          (if ?d = [] then None
           else Some (Max (set (map (\<lambda>r. the (delivery_row.delivery_days r)) ?d))))
      \<and> std_delivery_days (delivery_agg s ?g) =
          (if length ?days < 2 then None
           else Some (sqrt ((\<Sum>x\<leftarrow>?days. (x - sum_list ?days / real (length ?days))\<^sup>2)
                             / real (length ?days - 1))))"
    by (intro conjI) (rule f)+
  then have "?g = ?g \<and> ?d = ?d \<and> ?days = ?days
      \<and> delivery_summary_row.customer_state row = Some s
      \<and> delivery_summary_row.total_orders row =
          length (filter (\<lambda>r. delivery_row.order_id r \<noteq> None) ?g)
      \<and> delivered_orders row = length ?d
      \<and> delivery_rate row =
          (if delivery_summary_row.total_orders row = 0
           then (if ?d = [] then NaN else PosInf)
           else Finite (real (length ?d) / real (delivery_summary_row.total_orders row) * 100))
      \<and> avg_delivery_days row =
          (if ?days = [] then None else Some (sum_list ?days / real (length ?days)))
      \<and> median_delivery_days row =
          (if ?days = [] then None
           else if odd (length ?days) then Some (sort ?days ! (length ?days div 2))
           else Some ((sort ?days ! (length ?days div 2 - 1)
                        + sort ?days ! (length ?days div 2)) / 2))
      \<and> fastest_delivery row =
          (if ?d = [] then None
           else Some (Min (set (map (\<lambda>r. the (delivery_row.delivery_days r)) ?d))))
      \<and> slowest_delivery row =
          (if ?d = [] then None
           else Some (Max (set (map (\<lambda>r. the (delivery_row.delivery_days r)) ?d))))
      \<and> std_delivery_days row =
          (if length ?days < 2 then None
           else Some (sqrt ((\<Sum>x\<leftarrow>?days. (x - sum_list ?days / real (length ?days))\<^sup>2)
                             / real (length ?days - 1))))"
    by (simp only: row [symmetric] refl simp_thms)
  then show "\<exists>s group delivered days.
              group = delivery_group row (delivery_data_of parse_datetime orders customers)
            \<and> delivered = filter (\<lambda>r. delivery_row.delivery_days r \<noteq> None) group
            \<and> days = map (\<lambda>r. real_of_int (the (delivery_row.delivery_days r))) delivered
            \<and> delivery_summary_row.customer_state row = Some s
            \<and> delivery_summary_row.total_orders row =
                length (filter (\<lambda>r. delivery_row.order_id r \<noteq> None) group)
            \<and> delivered_orders row = length delivered
            \<and> delivery_rate row =
                (if delivery_summary_row.total_orders row = 0
                 then (if delivered = [] then NaN else PosInf)
                 else Finite (real (length delivered)
                        / real (delivery_summary_row.total_orders row) * 100))
            \<and> avg_delivery_days row =
                (if days = [] then None else Some (sum_list days / real (length days)))
            \<and> median_delivery_days row =
                (if days = [] then None
                 else if odd (length days) then Some (sort days ! (length days div 2))
                 else Some ((sort days ! (length days div 2 - 1)
                              + sort days ! (length days div 2)) / 2))
            \<and> fastest_delivery row =
                (if delivered = [] then None
                 else Some (Min (set (map (\<lambda>r. the (delivery_row.delivery_days r)) delivered))))
            \<and> slowest_delivery row =
                (if delivered = [] then None
                 else Some (Max (set (map (\<lambda>r. the (delivery_row.delivery_days r)) delivered))))
            \<and> std_delivery_days row =
                (if length days < 2 then None
                 else Some (sqrt ((\<Sum>x\<leftarrow>days. (x - sum_list days / real (length days))\<^sup>2)
                                   / real (length days - 1))))"
    by (intro exI)
qed

lemma sqrt_49: "sqrt 49 = 7"
  by (rule real_sqrt_unique) simp_all

theorem delivery_days_definition_witness:
  "map (\<lambda>row. (delivery_summary_row.customer_state row, delivery_summary_row.total_orders row,
                delivered_orders row, delivery_rate row, avg_delivery_days row,
                median_delivery_days row, fastest_delivery row, slowest_delivery row,
                std_delivery_days row))
     (snd (snd (create_delivery_summary sample_parse (Loaded sp_four_orders) sp_customers)))
   = [(Some ''SP'', 4, 3, Finite 75, Some 8, Some 11, Some 0, Some 13, Some 7)]
   \<and> map order_dt_row.delivery_days (parse_orders sample_parse sp_four_orders)
       = [Some 13, Some 0, None, Some 11]"
proof -
  let ?r = "create_delivery_summary sample_parse (Loaded sp_four_orders) sp_customers"
  have c: "?r = (fst ?r, fst (snd ?r), snd (snd ?r))"
    by simp
  have d: "map order_dt_row.delivery_days (parse_orders sample_parse sp_four_orders)
       = [Some 13, Some 0, None, Some 11]"
    by (simp add: parse_orders_rows sample_parse_def timedelta_days_def ns_per_day_def
          sample_defs sp_four_orders_def)
  have e: "map (\<lambda>row. (delivery_summary_row.customer_state row,
                delivery_summary_row.total_orders row,
                delivered_orders row, delivery_rate row, avg_delivery_days row,
                median_delivery_days row, fastest_delivery row, slowest_delivery row,
                std_delivery_days row)) (snd (snd ?r))
      = [(Some ''SP'', 4, 3, Finite 75, Some 8, Some 11, Some 0, Some 13, Some 7)]"
    by (simp add: create_delivery_summary_Loaded delivery_data_of_def merge_left_def
          delivery_with_customer_def parse_orders_rows sample_parse_def
          timedelta_days_def ns_per_day_def groupby_def delivery_agg_def agg_count_def
          agg_min_def agg_max_def day_values_def mean_def median_def std_def
          delivery_rate_of_def sqrt_49 power2_eq_square sample_defs sp_four_orders_def)
  from delivery_days_definition [OF c] e d show ?thesis by blast
qed

text \<open>
  Claim C10. Called on references to a loaded orders frame and to the customers,
  \<^verbatim>\<open>create_delivery_summary\<close> returns with the object behind \<open>orders\<close> changed: its two
  timestamp columns hold, for each text, what the parser makes of it in its column (NaT
  for a null or a text that does not parse), there is a new column \<^verbatim>\<open>delivery_days\<close>, and
  its other columns and its row order are as before. Every other object of the heap, the
  customers among them, is as before. The sales, product and state aggregators (and the
  sales aggregator of \<^verbatim>\<open>prefect_pipeline.py\<close>) return with the whole heap as before, in
  every world, and write their own table only.
\<close>

theorem create_delivery_summary_mutates_orders:
  assumes "heap w orders = Some (Orders (Loaded rows))"
    and "heap w customers = Some (Customers cs)"
  shows "(\<exists>w' rows'.
            call_create_delivery_summary parse_datetime orders customers w = Some w'
          \<and> heap w' orders = Some (Orders (Parsed rows'))
          \<and> heap w' orders \<noteq> heap w orders
          \<and> (\<forall>r. r \<noteq> orders \<longrightarrow> heap w' r = heap w r)
          \<and> heap w' customers = Some (Customers cs)
          \<and> map order_dt_row.order_id rows' = map order_row.order_id rows
          \<and> map order_dt_row.customer_id rows' = map order_row.customer_id rows
          \<and> map order_dt_row.order_status rows' = map order_row.order_status rows
          \<and> map order_dt_row.order_purchase_timestamp rows' =
              map (\<lambda>r. case order_row.order_purchase_timestamp r of
                          None \<Rightarrow> None
                        | Some s \<Rightarrow>
                            parse_datetime (map order_row.order_purchase_timestamp rows) s) rows
          \<and> map order_dt_row.order_delivered_customer_date rows' =
              map (\<lambda>r. case order_row.order_delivered_customer_date r of
                          None \<Rightarrow> None
                        | Some s \<Rightarrow>
                            parse_datetime (map order_row.order_delivered_customer_date rows) s)
                rows
          \<and> map order_dt_row.delivery_days rows' =
              map (\<lambda>r. case (order_row.order_purchase_timestamp r,
                              order_row.order_delivered_customer_date r) of
                          (Some ps, Some ds) \<Rightarrow>
                            (case (parse_datetime
                                     (map order_row.order_purchase_timestamp rows) ps,
                                   parse_datetime
                                     (map order_row.order_delivered_customer_date rows) ds) of
                               (Some p, Some d) \<Rightarrow> Some ((d - p) div ns_per_day)
                             | _ \<Rightarrow> None)
                        | _ \<Rightarrow> None) rows)
       \<and> (\<forall>v merged_df ms. heap v merged_df = Some (Merged ms) \<longrightarrow>
            (\<exists>v'. call_create_sales_summary merged_df v = Some v' \<and> heap v' = heap v
                 \<and> v' = v \<lparr> sales_summary_table := sales_summary_table v' \<rparr>)
          \<and> (\<exists>v'. call_prefect_create_sales_summary merged_df v = Some v' \<and> heap v' = heap v
                 \<and> v' = v \<lparr> sales_summary_table := sales_summary_table v' \<rparr>)
          \<and> (\<exists>v'. call_create_product_summary merged_df v = Some v' \<and> heap v' = heap v
                 \<and> v' = v \<lparr> product_summary_table := product_summary_table v' \<rparr>)
          \<and> (\<exists>v'. call_create_state_summary merged_df v = Some v' \<and> heap v' = heap v
                 \<and> v' = v \<lparr> state_summary_table := state_summary_table v' \<rparr>))"
proof (intro conjI allI impI)
  let ?rows = "parse_orders parse_datetime rows"
  let ?w = "w \<lparr> heap := (heap w)(orders \<mapsto> Orders (Parsed ?rows)),
               delivery_summary_table :=
                 Some (map (\<lambda>(s, g). delivery_agg s g)
                   (groupby delivery_row.customer_state
                      (delivery_data_of parse_datetime rows cs))) \<rparr>"
  from assms have ne: "customers \<noteq> orders" by auto
  have call: "call_create_delivery_summary parse_datetime orders customers w = Some ?w"
    by (simp add: call_create_delivery_summary_def assms create_delivery_summary_Loaded)
  have h: "heap ?w orders = Some (Orders (Parsed ?rows))"
    by simp
  have changed: "heap ?w orders \<noteq> heap w orders"
    by (simp add: assms)
  have others: "\<forall>r. r \<noteq> orders \<longrightarrow> heap ?w r = heap w r"
    by simp
  have cust: "heap ?w customers = Some (Customers cs)"
    using ne by (simp add: assms)
  have cols:
    "map order_dt_row.order_id ?rows = map order_row.order_id rows"
    "map order_dt_row.customer_id ?rows = map order_row.customer_id rows"
    "map order_dt_row.order_status ?rows = map order_row.order_status rows"
    "map order_dt_row.order_purchase_timestamp ?rows =
       map (\<lambda>r. case order_row.order_purchase_timestamp r of
                   None \<Rightarrow> None
                 | Some s \<Rightarrow> parse_datetime (map order_row.order_purchase_timestamp rows) s) rows"
    "map order_dt_row.order_delivered_customer_date ?rows =
       map (\<lambda>r. case order_row.order_delivered_customer_date r of
                   None \<Rightarrow> None
                 | Some s \<Rightarrow>
                     parse_datetime (map order_row.order_delivered_customer_date rows) s) rows"
    by (simp_all add: parse_orders_rows o_def)
  have days: "map order_dt_row.delivery_days ?rows =
       map (\<lambda>r. case (order_row.order_purchase_timestamp r,
                       order_row.order_delivered_customer_date r) of
                   (Some ps, Some ds) \<Rightarrow>
                     (case (parse_datetime (map order_row.order_purchase_timestamp rows) ps,
                            parse_datetime
                              (map order_row.order_delivered_customer_date rows) ds) of
                        (Some p, Some d) \<Rightarrow> Some ((d - p) div ns_per_day)
                      | _ \<Rightarrow> None)
                 | _ \<Rightarrow> None) rows"
    by (auto simp: parse_orders_rows timedelta_days_def split: option.splits)
  from call h changed others cust cols days
  show "\<exists>w' rows'.
            call_create_delivery_summary parse_datetime orders customers w = Some w'
          \<and> heap w' orders = Some (Orders (Parsed rows'))
          \<and> heap w' orders \<noteq> heap w orders
          \<and> (\<forall>r. r \<noteq> orders \<longrightarrow> heap w' r = heap w r)
          \<and> heap w' customers = Some (Customers cs)
          \<and> map order_dt_row.order_id rows' = map order_row.order_id rows
          \<and> map order_dt_row.customer_id rows' = map order_row.customer_id rows
          \<and> map order_dt_row.order_status rows' = map order_row.order_status rows
          \<and> map order_dt_row.order_purchase_timestamp rows' =
              map (\<lambda>r. case order_row.order_purchase_timestamp r of
                          None \<Rightarrow> None
                        | Some s \<Rightarrow>
                            parse_datetime (map order_row.order_purchase_timestamp rows) s) rows
          \<and> map order_dt_row.order_delivered_customer_date rows' =
              map (\<lambda>r. case order_row.order_delivered_customer_date r of
                          None \<Rightarrow> None
                        | Some s \<Rightarrow>
                            parse_datetime (map order_row.order_delivered_customer_date rows) s)
                rows
          \<and> map order_dt_row.delivery_days rows' =
              map (\<lambda>r. case (order_row.order_purchase_timestamp r,
                              order_row.order_delivered_customer_date r) of
                          (Some ps, Some ds) \<Rightarrow>
                            (case (parse_datetime
                                     (map order_row.order_purchase_timestamp rows) ps,
                                   parse_datetime
                                     (map order_row.order_delivered_customer_date rows) ds) of
                               (Some p, Some d) \<Rightarrow> Some ((d - p) div ns_per_day)
                             | _ \<Rightarrow> None)
                        | _ \<Rightarrow> None) rows"
    by blast
next
  fix v :: world and merged_df ms
  assume m: "heap v merged_df = Some (Merged ms)"
  show "\<exists>v'. call_create_sales_summary merged_df v = Some v' \<and> heap v' = heap v
                 \<and> v' = v \<lparr> sales_summary_table := sales_summary_table v' \<rparr>"
    by (simp add: call_create_sales_summary_def m)
  show "\<exists>v'. call_prefect_create_sales_summary merged_df v = Some v' \<and> heap v' = heap v
                 \<and> v' = v \<lparr> sales_summary_table := sales_summary_table v' \<rparr>"
    by (simp add: call_prefect_create_sales_summary_def m)
  show "\<exists>v'. call_create_product_summary merged_df v = Some v' \<and> heap v' = heap v
                 \<and> v' = v \<lparr> product_summary_table := product_summary_table v' \<rparr>"
    by (simp add: call_create_product_summary_def m)
  show "\<exists>v'. call_create_state_summary merged_df v = Some v' \<and> heap v' = heap v
                 \<and> v' = v \<lparr> state_summary_table := state_summary_table v' \<rparr>"
    by (simp add: call_create_state_summary_def m)
qed

theorem create_delivery_summary_mutates_orders_witness:
  "map_option (\<lambda>w'. heap w' 3) (call_create_delivery_summary sample_parse 3 2 sample_world) =
     Some (Some (Orders (Parsed
       [\<lparr> order_dt_row.order_id = Some ''o1'', customer_id = Some ''c1'',
           order_status = Some ''delivered'', order_purchase_timestamp = Some 0,
           order_delivered_customer_date = Some (3 * ns_per_day + 5),
           delivery_days = Some 3 \<rparr>,
        \<lparr> order_dt_row.order_id = Some ''o2'', customer_id = Some ''c1'',
           order_status = Some ''delivered'', order_purchase_timestamp = Some 0,
           order_delivered_customer_date = None,
           delivery_days = None \<rparr>])))
   \<and> heap sample_world 3 = Some (Orders (Loaded sp_two_orders))
   \<and> map_option (\<lambda>w'. heap w' 2) (call_create_delivery_summary sample_parse 3 2 sample_world) =
       Some (Some (Customers sp_customers))
   \<and> map_option (\<lambda>w'. heap w' 1) (call_create_delivery_summary sample_parse 3 2 sample_world) =
       Some (Some (Merged []))
   \<and> map_option heap (call_create_sales_summary 1 sample_world) = Some (heap sample_world)
   \<and> map_option heap (call_create_product_summary 1 sample_world) = Some (heap sample_world)
   \<and> map_option heap (call_create_state_summary 1 sample_world) = Some (heap sample_world)"
proof -
  have o: "heap sample_world 3 = Some (Orders (Loaded sp_two_orders))"
    and c: "heap sample_world 2 = Some (Customers sp_customers)"
    and m: "heap sample_world 1 = Some (Merged [])"
    by (simp_all add: sample_world_def)
  have p: "parse_orders sample_parse sp_two_orders =
       [\<lparr> order_dt_row.order_id = Some ''o1'', customer_id = Some ''c1'',
           order_status = Some ''delivered'', order_purchase_timestamp = Some 0,
           order_delivered_customer_date = Some (3 * ns_per_day + 5),
           delivery_days = Some 3 \<rparr>,
        \<lparr> order_dt_row.order_id = Some ''o2'', customer_id = Some ''c1'',
           order_status = Some ''delivered'', order_purchase_timestamp = Some 0,
           order_delivered_customer_date = None,
           delivery_days = None \<rparr>]"
    by (simp add: parse_orders_rows sample_parse_def timedelta_days_def ns_per_day_def
          sample_defs sp_two_orders_def)
  have e: "map_option (\<lambda>w'. heap w' 3)
             (call_create_delivery_summary sample_parse 3 2 sample_world) =
           Some (Some (Orders (Parsed (parse_orders sample_parse sp_two_orders))))"
    by (simp add: call_create_delivery_summary_def o c create_delivery_summary_Loaded)
  from create_delivery_summary_mutates_orders [OF o c, of sample_parse]
  obtain w' where w': "call_create_delivery_summary sample_parse 3 2 sample_world = Some w'"
      "\<forall>r. r \<noteq> 3 \<longrightarrow> heap w' r = heap sample_world r"
    and rest: "\<forall>v merged_df ms. heap v merged_df = Some (Merged ms) \<longrightarrow>
            (\<exists>v'. call_create_sales_summary merged_df v = Some v' \<and> heap v' = heap v
                 \<and> v' = v \<lparr> sales_summary_table := sales_summary_table v' \<rparr>)
          \<and> (\<exists>v'. call_prefect_create_sales_summary merged_df v = Some v' \<and> heap v' = heap v
                 \<and> v' = v \<lparr> sales_summary_table := sales_summary_table v' \<rparr>)
          \<and> (\<exists>v'. call_create_product_summary merged_df v = Some v' \<and> heap v' = heap v
                 \<and> v' = v \<lparr> product_summary_table := product_summary_table v' \<rparr>)
          \<and> (\<exists>v'. call_create_state_summary merged_df v = Some v' \<and> heap v' = heap v
                 \<and> v' = v \<lparr> state_summary_table := state_summary_table v' \<rparr>)"
    by blast
  from w' c m have u: "map_option (\<lambda>w'. heap w' 2)
        (call_create_delivery_summary sample_parse 3 2 sample_world) =
       Some (Some (Customers sp_customers))"
      "map_option (\<lambda>w'. heap w' 1)
        (call_create_delivery_summary sample_parse 3 2 sample_world) = Some (Some (Merged []))"
    by simp_all
  from rest m have a: "map_option heap (call_create_sales_summary 1 sample_world) =
        Some (heap sample_world)"
      "map_option heap (call_create_product_summary 1 sample_world) = Some (heap sample_world)"
      "map_option heap (call_create_state_summary 1 sample_world) = Some (heap sample_world)"
    by (metis option.simps(9))+
  from e p o u a show ?thesis by (simp only: simp_thms)
qed

section \<open>Properties of the master-table load\<close>

















end
